theory Spec2Isabelle
  imports Complex_Main
begin

section \<open>Python values: strings, exceptions, dynamic values\<close>

text \<open>
  A Python \<open>str\<close> is a sequence of Unicode code points, so it is modelled as a list of
  natural numbers (an en dash is the single code point 8211, not three bytes).
  \<open>ustr\<close> embeds an ASCII literal.

  The character tables below are exact for the code points below 256 and for white space
  (\<open>str.isspace\<close>, which is also the regular expression class \<open>\s\<close>); a code point from
  256 on that is not white space is taken to be a caseless character that is neither a digit
  nor a word character.
\<close>

type_synonym pystr = "nat list"

definition ustr :: "string \<Rightarrow> pystr" where
  "ustr x = map of_char x"

definition py_isspace :: "nat \<Rightarrow> bool" where
  "py_isspace c \<longleftrightarrow>
     (9 \<le> c \<and> c \<le> 13) \<or> (28 \<le> c \<and> c \<le> 32) \<or> c = 133 \<or> c = 160 \<or> c = 5760 \<or>
     (8192 \<le> c \<and> c \<le> 8202) \<or> c = 8232 \<or> c = 8233 \<or> c = 8239 \<or> c = 8287 \<or> c = 12288"

definition py_isdigit :: "nat \<Rightarrow> bool" where
  "py_isdigit c \<longleftrightarrow> 48 \<le> c \<and> c \<le> 57"

definition py_isupper :: "nat \<Rightarrow> bool" where
  "py_isupper c \<longleftrightarrow> (65 \<le> c \<and> c \<le> 90) \<or> (192 \<le> c \<and> c \<le> 222 \<and> c \<noteq> 215)"

definition py_islower :: "nat \<Rightarrow> bool" where
  "py_islower c \<longleftrightarrow> (97 \<le> c \<and> c \<le> 122) \<or> (224 \<le> c \<and> c \<le> 254 \<and> c \<noteq> 247)"

definition py_isword :: "nat \<Rightarrow> bool" where
  "py_isword c \<longleftrightarrow>
     py_isdigit c \<or> c = 95 \<or> (65 \<le> c \<and> c \<le> 90) \<or> (97 \<le> c \<and> c \<le> 122) \<or>
     c = 170 \<or> c = 178 \<or> c = 179 \<or> c = 181 \<or> c = 185 \<or> c = 186 \<or> (188 \<le> c \<and> c \<le> 190) \<or>
     (192 \<le> c \<and> c \<le> 255 \<and> c \<noteq> 215 \<and> c \<noteq> 247)"

definition lower_cp :: "nat \<Rightarrow> nat" where
  "lower_cp c = (if py_isupper c then c + 32 else c)"

definition upper_cp :: "nat \<Rightarrow> nat" where
  "upper_cp c = (if py_islower c then c - 32 else c)"

text \<open>\<open>s.lower()\<close>, \<open>s.strip()\<close>, \<open>sub in s\<close>, \<open>s.find(sub)\<close>, \<open>s.count(sub)\<close>,
  \<open>s.split()\<close> and \<open>sep.join(parts)\<close>.\<close>

definition lower :: "pystr \<Rightarrow> pystr" where
  "lower s = map lower_cp s"

definition strip :: "pystr \<Rightarrow> pystr" where
  "strip s = rev (dropWhile py_isspace (rev (dropWhile py_isspace s)))"

fun startswith :: "pystr \<Rightarrow> pystr \<Rightarrow> bool" where
  "startswith s [] = True"
| "startswith [] (p # ps) = False"
| "startswith (c # cs) (p # ps) = (c = p \<and> startswith cs ps)"

fun contains :: "pystr \<Rightarrow> pystr \<Rightarrow> bool" where
  "contains [] sub = (sub = [])"
| "contains (c # cs) sub = (startswith (c # cs) sub \<or> contains cs sub)"

fun find_from :: "nat \<Rightarrow> pystr \<Rightarrow> pystr \<Rightarrow> int" where
  "find_from i [] sub = (if sub = [] then int i else - 1)"
| "find_from i (c # cs) sub = (if startswith (c # cs) sub then int i else find_from (Suc i) cs sub)"

definition find :: "pystr \<Rightarrow> pystr \<Rightarrow> int" where
  "find s sub = find_from 0 s sub"

fun split_ws_acc :: "pystr \<Rightarrow> pystr \<Rightarrow> pystr list" where
  "split_ws_acc acc [] = (if acc = [] then [] else [rev acc])"
| "split_ws_acc acc (c # cs) =
     (if py_isspace c then (if acc = [] then split_ws_acc [] cs else rev acc # split_ws_acc [] cs)
      else split_ws_acc (c # acc) cs)"

definition split_ws :: "pystr \<Rightarrow> pystr list" where
  "split_ws s = split_ws_acc [] s"

fun join :: "pystr \<Rightarrow> pystr list \<Rightarrow> pystr" where
  "join sep [] = []"
| "join sep [x] = x"
| "join sep (x # y # ys) = x @ sep @ join sep (y # ys)"

text \<open>
  Exceptions are values: a class and the message that \<open>str(e)\<close> returns. The classes are the
  ones the modelled code raises or catches. \<open>catches\<close> is the subclass test of an
  \<open>except\<close> clause: \<open>HTTPError\<close> is a \<open>RequestException\<close>, \<open>JSONDecodeError\<close> is a
  \<open>ValueError\<close>, and every class here is an \<open>Exception\<close>.
\<close>

datatype exn_class =
    Exception | ValueError | TypeError | AttributeError | KeyError | IndexError
  | JSONDecodeError | FeatureNotFound | RequestException | HTTPError | FetchError
  | ValidationError

datatype exn = Exn exn_class pystr

fun exn_cls :: "exn \<Rightarrow> exn_class" where
  "exn_cls (Exn c m) = c"

fun str_exn :: "exn \<Rightarrow> pystr" where
  "str_exn (Exn c m) = m"

fun catches :: "exn_class \<Rightarrow> exn_class \<Rightarrow> bool" where
  "catches Exception c = True"
| "catches ValueError c = (c = ValueError \<or> c = JSONDecodeError)"
| "catches RequestException c = (c = RequestException \<or> c = HTTPError)"
| "catches h c = (h = c)"

type_synonym 'a py = "exn + 'a"

definition py_bind :: "'a py \<Rightarrow> ('a \<Rightarrow> 'b py) \<Rightarrow> 'b py" where
  "py_bind m f = (case m of Inl e \<Rightarrow> Inl e | Inr x \<Rightarrow> f x)"

text \<open>
  Python floats are modelled by the rationals they denote: the decimal numerals and the
  arithmetic of this program (a mean of two numerals, Celsius to Fahrenheit) are exact there.
  Rounding, infinities and NaN are outside the model.
\<close>

type_synonym pyfloat = rat

text \<open>A dynamically typed value: what \<open>json.loads\<close> returns and what an unvalidated
  attribute holds.\<close>

datatype pyval =
    PNone | PBool bool | PInt int | PFloat pyfloat | PStr pystr
  | PList "pyval list" | PDict "(pystr \<times> pyval) list"

section \<open>Regular expressions (the subset of Python's \<open>re\<close> that the program uses)\<close>

text \<open>
  A pattern is written as a syntax tree. Matching is Python's: backtracking, leftmost start,
  alternatives in order, greedy (or lazy) repetition, capturing groups numbered by their
  opening parenthesis. \<open>Dot\<close> is \<open>.\<close> without \<open>re.DOTALL\<close>, \<open>DotAll\<close> with it; \<open>Eol\<close> is
  \<open>$\<close>. The flag \<open>ic\<close> is \<open>re.IGNORECASE\<close>.
\<close>

datatype citem = Ch nat | Rng nat nat | Digit | Space | Word

datatype re =
    Eps | Lit pystr | Set "citem list" | NSet "citem list" | Dot | DotAll | Eol
  | Cat re re | Alt re re | Star re | LazyStar re | Grp nat re

fun in_citem :: "nat \<Rightarrow> citem \<Rightarrow> bool" where
  "in_citem c (Ch d) = (c = d)"
| "in_citem c (Rng a b) = (a \<le> c \<and> c \<le> b)"
| "in_citem c Digit = py_isdigit c"
| "in_citem c Space = py_isspace c"
| "in_citem c Word = py_isword c"

definition in_cset :: "bool \<Rightarrow> citem list \<Rightarrow> nat \<Rightarrow> bool" where
  "in_cset ic items c =
     list_ex (\<lambda>it. in_citem c it \<or> (ic \<and> (in_citem (lower_cp c) it \<or> in_citem (upper_cp c) it))) items"

fun lit_match :: "bool \<Rightarrow> pystr \<Rightarrow> pystr \<Rightarrow> pystr option" where
  "lit_match ic [] s = Some s"
| "lit_match ic (p # ps) [] = None"
| "lit_match ic (p # ps) (c # cs) =
     (if c = p \<or> (ic \<and> lower_cp c = lower_cp p) then lit_match ic ps cs else None)"

text \<open>The matcher's state: the input still to read, and the groups closed so far, the
  latest first.\<close>

type_synonym mstate = "pystr \<times> (nat \<times> pystr) list"

definition step1 :: "(nat \<Rightarrow> bool) \<Rightarrow> (mstate \<Rightarrow> 'a option) \<Rightarrow> mstate \<Rightarrow> 'a option" where
  "step1 p k st = (case fst st of [] \<Rightarrow> None | c # cs \<Rightarrow> if p c then k (cs, snd st) else None)"

text \<open>Repetition: one more round of the body must consume input; the fuel is the input
  itself, so it never runs out before the input does.\<close>

fun star_loop ::
  "((mstate \<Rightarrow> 'a option) \<Rightarrow> mstate \<Rightarrow> 'a option) \<Rightarrow> bool \<Rightarrow> 'b list \<Rightarrow>
   (mstate \<Rightarrow> 'a option) \<Rightarrow> mstate \<Rightarrow> 'a option" where
  "star_loop body lazy [] k st = k st"
| "star_loop body lazy (x # fuel) k st =
     (if lazy then
        (case k st of
           Some r \<Rightarrow> Some r
         | None \<Rightarrow>
             body (\<lambda>st'. if length (fst st') < length (fst st)
                          then star_loop body lazy fuel k st' else None) st)
      else
        (case body (\<lambda>st'. if length (fst st') < length (fst st)
                           then star_loop body lazy fuel k st' else None) st of
           Some r \<Rightarrow> Some r
         | None \<Rightarrow> k st))"

fun rmatch :: "bool \<Rightarrow> re \<Rightarrow> (mstate \<Rightarrow> 'a option) \<Rightarrow> mstate \<Rightarrow> 'a option" where
  "rmatch ic Eps k st = k st"
| "rmatch ic (Lit p) k st =
     (case lit_match ic p (fst st) of None \<Rightarrow> None | Some rest \<Rightarrow> k (rest, snd st))"
| "rmatch ic (Set items) k st = step1 (in_cset ic items) k st"
| "rmatch ic (NSet items) k st = step1 (\<lambda>c. \<not> in_cset ic items c) k st"
| "rmatch ic Dot k st = step1 (\<lambda>c. c \<noteq> 10) k st"
| "rmatch ic DotAll k st = step1 (\<lambda>c. True) k st"
| "rmatch ic Eol k st = (if fst st = [] \<or> fst st = [10] then k st else None)"
| "rmatch ic (Cat a b) k st = rmatch ic a (rmatch ic b k) st"
| "rmatch ic (Alt a b) k st =
     (case rmatch ic a k st of Some r \<Rightarrow> Some r | None \<Rightarrow> rmatch ic b k st)"
| "rmatch ic (Star a) k st = star_loop (rmatch ic a) False (fst st) k st"
| "rmatch ic (LazyStar a) k st = star_loop (rmatch ic a) True (fst st) k st"
| "rmatch ic (Grp n a) k st =
     rmatch ic a
       (\<lambda>st'. k (fst st', (n, take (length (fst st) - length (fst st')) (fst st)) # snd st')) st"

text \<open>A match object: start, end, and the groups. \<open>group m n\<close> is \<open>m.group(n)\<close> for
  \<open>n \<ge> 1\<close> (\<open>None\<close> when the group took no part), \<open>lastindex\<close> is \<open>m.lastindex\<close>.\<close>

type_synonym rematch = "nat \<times> nat \<times> (nat \<times> pystr) list"

definition group :: "rematch \<Rightarrow> nat \<Rightarrow> pystr option" where
  "group m n = map_of (snd (snd m)) n"

definition lastindex :: "rematch \<Rightarrow> nat option" where
  "lastindex m = (case snd (snd m) of [] \<Rightarrow> None | g # gs \<Rightarrow> Some (fst g))"

definition match_end :: "rematch \<Rightarrow> nat" where
  "match_end m = fst (snd m)"

definition match_at :: "bool \<Rightarrow> re \<Rightarrow> nat \<Rightarrow> pystr \<Rightarrow> rematch option" where
  "match_at ic r i s =
     (case rmatch ic r (\<lambda>st. Some st) (s, []) of
        None \<Rightarrow> None
      | Some st \<Rightarrow> Some (i, i + (length s - length (fst st)), snd st))"

fun search_from :: "bool \<Rightarrow> re \<Rightarrow> nat \<Rightarrow> pystr \<Rightarrow> rematch option" where
  "search_from ic r i [] = match_at ic r i []"
| "search_from ic r i (c # cs) =
     (case match_at ic r i (c # cs) of
        Some m \<Rightarrow> Some m
      | None \<Rightarrow> search_from ic r (Suc i) cs)"

definition re_search :: "bool \<Rightarrow> re \<Rightarrow> pystr \<Rightarrow> rematch option" where
  "re_search ic r s = search_from ic r 0 s"

text \<open>The groups that take part in every match of a pattern.\<close>

fun must :: "re \<Rightarrow> nat set" where
  "must (Grp n a) = insert n (must a)"
| "must (Cat a b) = must a \<union> must b"
| "must (Alt a b) = must a \<inter> must b"
| "must r = {}"

text \<open>Derived pattern forms.\<close>

definition Plus :: "re \<Rightarrow> re" where
  "Plus r = Cat r (Star r)"

definition LazyPlus :: "re \<Rightarrow> re" where
  "LazyPlus r = Cat r (LazyStar r)"

definition Opt :: "re \<Rightarrow> re" where
  "Opt r = Alt r Eps"

fun cats :: "re list \<Rightarrow> re" where
  "cats [] = Eps"
| "cats [r] = r"
| "cats (r # rs) = Cat r (cats rs)"

fun alts :: "re list \<Rightarrow> re" where
  "alts [] = NSet [Rng 0 1114111]"
| "alts [r] = r"
| "alts (r # rs) = Alt r (alts rs)"

definition lit :: "string \<Rightarrow> re" where
  "lit x = Lit (ustr x)"

text \<open>\<open>\d+\<close>, \<open>\s*\<close>, \<open>\s+\<close> and \<open>\d+(?:\.\d+)?\<close>, which most patterns are built from.\<close>

definition digits :: re where
  "digits = Plus (Set [Digit])"

definition ws0 :: re where
  "ws0 = Star (Set [Space])"

definition ws1 :: re where
  "ws1 = Plus (Set [Space])"

definition decimal :: re where
  "decimal = Cat digits (Opt (Cat (lit ''.'') digits))"

text \<open>\<open>int(s)\<close> and \<open>float(s)\<close> on the text of a group. \<open>int\<close> refuses a numeral of more
  than 4300 digits (\<open>sys.int_max_str_digits\<close>); \<open>float\<close> has no such limit.
  \<open>float_dec\<close> is applied only to text that \<open>\d+(?:\.\d+)?\<close> matched.\<close>

definition dec_val :: "pystr \<Rightarrow> nat" where
  "dec_val s = foldl (\<lambda>a c. 10 * a + (c - 48)) 0 s"

definition py_int :: "pystr \<Rightarrow> int py" where
  "py_int s =
     (if s = [] \<or> \<not> list_all py_isdigit s then Inl (Exn ValueError (ustr ''invalid literal for int()''))
      else if length s > 4300 then Inl (Exn ValueError (ustr ''Exceeds the limit for integer string conversion''))
      else Inr (int (dec_val s)))"

definition float_dec :: "pystr \<Rightarrow> pyfloat" where
  "float_dec s =
     (let ip = takeWhile py_isdigit s; fp = takeWhile py_isdigit (drop (Suc (length ip)) s)
      in of_nat (dec_val ip) + of_nat (dec_val fp) / 10 ^ length fp)"

section \<open>The shared parsers of \<open>adapters/base.py\<close>\<close>

text \<open>
  \<open>parse_inches\<close>. The first pattern is
  \<^verbatim>\<open>(\d+(?:\.\d+)?)\s*[-...]\s*(\d+(?:\.\d+)?)\<close>, where the class holds the hyphen and
  the three code points 226, 8364 and 8220 that the source file has after it (the bytes of
  an en dash read as Windows-1252); the en dash itself, 8211, is not in the class.
  The second pattern is \<^verbatim>\<open>(\d+(?:\.\d+)?)\s*(?:\"|in|inches?)?\<close>.
  The argument is \<open>None\<close> or a string.
\<close>

definition inches_range_re :: re where
  "inches_range_re =
     cats [Grp 1 decimal, ws0, Set [Ch 45, Ch 226, Ch 8364, Ch 8220], ws0, Grp 2 decimal]"

definition inches_single_re :: re where
  "inches_single_re =
     cats [Grp 1 decimal, ws0,
           Opt (alts [lit [CHR 0x22], lit ''in'', Cat (lit ''inche'') (Opt (lit ''s''))])]"

definition group_float :: "rematch \<Rightarrow> nat \<Rightarrow> pyfloat py" where
  "group_float m n =
     (case group m n of
        None \<Rightarrow> Inl (Exn TypeError (ustr ''float() argument must be a string or a real number, not NoneType''))
      | Some g \<Rightarrow> Inr (float_dec g))"

definition group_int :: "rematch \<Rightarrow> nat \<Rightarrow> int py" where
  "group_int m n =
     (case group m n of
        None \<Rightarrow> Inl (Exn TypeError (ustr ''int() argument must be a string or a real number, not NoneType''))
      | Some g \<Rightarrow> py_int g)"

definition parse_inches :: "pystr option \<Rightarrow> (pyfloat option) py" where
  "parse_inches text =
     (case text of
        None \<Rightarrow> Inr None
      | Some t0 \<Rightarrow>
          if t0 = [] then Inr None
          else
            let t = lower (strip t0) in
            (case re_search False inches_range_re t of
               Some range_match \<Rightarrow>
                 py_bind (group_float range_match 1) (\<lambda>low.
                 py_bind (group_float range_match 2) (\<lambda>high.
                 Inr (Some ((low + high) / 2))))
             | None \<Rightarrow>
                 (case re_search False inches_single_re t of
                    Some m \<Rightarrow> py_bind (group_float m 1) (\<lambda>v. Inr (Some v))
                  | None \<Rightarrow> Inr None)))"

text \<open>
  \<open>parse_fraction\<close>, with the patterns \<^verbatim>\<open>(\d+)\s*/\s*(\d+)\<close>, \<^verbatim>\<open>(\d+)\s+of\s+(\d+)\<close> and
  \<^verbatim>\<open>(\d+)\s+out\s+of\s+(\d+)\<close>; \<open>parse_bool_status\<close>; \<open>clean_text\<close>.
  \<open>first_match\<close> is the loop \<open>for pattern in patterns: match = re.search(...); if match: ...\<close>
  up to the first pattern that matches.
\<close>

fun first_match :: "bool \<Rightarrow> re list \<Rightarrow> pystr \<Rightarrow> rematch option" where
  "first_match ic [] t = None"
| "first_match ic (pattern # patterns) t =
     (case re_search ic pattern t of Some m \<Rightarrow> Some m | None \<Rightarrow> first_match ic patterns t)"

definition int_pair :: "rematch \<Rightarrow> nat \<Rightarrow> nat \<Rightarrow> (int \<times> int) py" where
  "int_pair m i j = py_bind (group_int m i) (\<lambda>a. py_bind (group_int m j) (\<lambda>b. Inr (a, b)))"

definition fraction_res :: "re list" where
  "fraction_res =
     [cats [Grp 1 digits, ws0, lit ''/'', ws0, Grp 2 digits],
      cats [Grp 1 digits, ws1, lit ''of'', ws1, Grp 2 digits],
      cats [Grp 1 digits, ws1, lit ''out'', ws1, lit ''of'', ws1, Grp 2 digits]]"

definition parse_fraction :: "pystr option \<Rightarrow> (int option \<times> int option) py" where
  "parse_fraction text =
     (case text of
        None \<Rightarrow> Inr (None, None)
      | Some t0 \<Rightarrow>
          if t0 = [] then Inr (None, None)
          else
            (case first_match True fraction_res (strip t0) of
               Some m \<Rightarrow> py_bind (int_pair m 1 2) (\<lambda>(a, b). Inr (Some a, Some b))
             | None \<Rightarrow> Inr (None, None)))"

definition parse_bool_status :: "pystr option \<Rightarrow> bool option" where
  "parse_bool_status text =
     (case text of
        None \<Rightarrow> None
      | Some t0 \<Rightarrow>
          if t0 = [] then None
          else
            let t = lower (strip t0) in
            if list_ex (contains t) [ustr ''not operating'', ustr ''closed'', ustr ''not open''] then Some False
            else if list_ex (contains t) [ustr ''open'', ustr ''yes'', ustr ''operating''] then Some True
            else None)"

definition clean_text :: "pystr option \<Rightarrow> pystr" where
  "clean_text text =
     (case text of None \<Rightarrow> [] | Some t \<Rightarrow> if t = [] then [] else join (ustr '' '') (split_ws t))"

section \<open>The data contract of \<open>models.py\<close>\<close>

text \<open>
  The fields are those of the pydantic models. The lift and trail counts are declared
  \<open>Optional[int]\<close>, but pydantic does not validate an attribute assignment, so a count holds
  whatever value an adapter stores in it (the Palisades adapter stores values read from a JSON
  document): the counts are dynamic values, \<open>PNone\<close> for \<open>None\<close>. The same holds for the two
  text fields of \<open>Weather\<close>. Times are POSIX seconds.
\<close>

type_synonym datetime = rat

record Sources =
  ops_url :: pystr
  weather_points_url :: "pystr option"
  weather_forecast_url :: "pystr option"

record Operations =
  open_flag :: "bool option"
  lifts_open :: pyval
  lifts_scheduled :: pyval
  lifts_total :: pyval
  trails_open :: pyval
  trails_scheduled :: pyval
  trails_total :: pyval

record Snow =
  new_snow_24h_in :: "pyfloat option"
  new_snow_48h_in :: "pyfloat option"
  base_depth_in :: "pyfloat option"
  season_total_in :: "pyfloat option"
  surface :: "pystr option"
  report_updated_at :: "datetime option"

record Weather =
  temp_f :: "pyfloat option"
  wind_mph :: "pyfloat option"
  wind_gust_mph :: "pyfloat option"
  short_forecast :: pyval
  forecast_period_name :: pyval

record ResortConditions =
  slug :: pystr
  name :: pystr
  fetched_at_utc :: datetime
  stale :: bool
  sources :: Sources
  ops :: Operations
  snow :: Snow
  weather :: Weather

record ResortConfig =
  cfg_slug :: pystr
  cfg_name :: pystr
  kind :: pystr
  source_url :: pystr
  lat :: pyfloat
  lon :: pyfloat
  enabled :: bool

text \<open>The default instances \<open>Operations()\<close>, \<open>Snow()\<close> and \<open>Weather()\<close>: every fact unknown.\<close>

definition Operations0 :: Operations where
  "Operations0 =
     \<lparr>open_flag = None, lifts_open = PNone, lifts_scheduled = PNone, lifts_total = PNone,
      trails_open = PNone, trails_scheduled = PNone, trails_total = PNone\<rparr>"

definition Snow0 :: Snow where
  "Snow0 =
     \<lparr>new_snow_24h_in = None, new_snow_48h_in = None, base_depth_in = None,
      season_total_in = None, surface = None, report_updated_at = None\<rparr>"

definition Weather0 :: Weather where
  "Weather0 =
     \<lparr>temp_f = None, wind_mph = None, wind_gust_mph = None,
      short_forecast = PNone, forecast_period_name = PNone\<rparr>"

text \<open>\<open>ParseResult\<close> of \<open>adapters/base.py\<close>, and its default instance.\<close>

record ParseResult =
  success :: bool
  pr_ops :: Operations
  pr_snow :: Snow
  error :: "pystr option"
  needs_headless :: bool

definition ParseResult0 :: ParseResult where
  "ParseResult0 =
     \<lparr>success = False, pr_ops = Operations0, pr_snow = Snow0, error = None, needs_headless = False\<rparr>"

text \<open>Dynamic arithmetic on counts: \<open>v or 0\<close>, \<open>a + b\<close> and \<open>v > 0\<close>. A \<open>bool\<close> is an
  \<open>int\<close> in Python; \<open>+\<close> also concatenates two strings or two lists; everything else is a
  \<open>TypeError\<close>.\<close>

fun truthy :: "pyval \<Rightarrow> bool" where
  "truthy PNone = False"
| "truthy (PBool b) = b"
| "truthy (PInt n) = (n \<noteq> 0)"
| "truthy (PFloat q) = (q \<noteq> 0)"
| "truthy (PStr s) = (s \<noteq> [])"
| "truthy (PList xs) = (xs \<noteq> [])"
| "truthy (PDict kvs) = (kvs \<noteq> [])"

definition py_or0 :: "pyval \<Rightarrow> pyval" where
  "py_or0 v = (if truthy v then v else PInt 0)"

fun num_of :: "pyval \<Rightarrow> (int + pyfloat) option" where
  "num_of (PBool b) = Some (Inl (if b then 1 else 0))"
| "num_of (PInt n) = Some (Inl n)"
| "num_of (PFloat q) = Some (Inr q)"
| "num_of v = None"

definition type_error :: "string \<Rightarrow> exn" where
  "type_error msg = Exn TypeError (ustr msg)"

definition py_add :: "pyval \<Rightarrow> pyval \<Rightarrow> pyval py" where
  "py_add a b =
     (case (num_of a, num_of b) of
        (Some (Inl m), Some (Inl n)) \<Rightarrow> Inr (PInt (m + n))
      | (Some (Inl m), Some (Inr q)) \<Rightarrow> Inr (PFloat (of_int m + q))
      | (Some (Inr p), Some (Inl n)) \<Rightarrow> Inr (PFloat (p + of_int n))
      | (Some (Inr p), Some (Inr q)) \<Rightarrow> Inr (PFloat (p + q))
      | _ \<Rightarrow>
          (case (a, b) of
             (PStr s, PStr t) \<Rightarrow> Inr (PStr (s @ t))
           | (PList xs, PList ys) \<Rightarrow> Inr (PList (xs @ ys))
           | _ \<Rightarrow> Inl (type_error ''unsupported operand type(s) for +'')))"

definition py_gt0 :: "pyval \<Rightarrow> bool py" where
  "py_gt0 v =
     (case num_of v of
        Some (Inl n) \<Rightarrow> Inr (n > 0)
      | Some (Inr q) \<Rightarrow> Inr (q > 0)
      | None \<Rightarrow> Inl (type_error ''> not supported between these instances''))"

section \<open>The adapter registry of \<open>adapters/registry.py\<close>\<close>

datatype adapter =
    GenericHTMLAdapter | BorealAdapter | DiamondPeakAdapter | HomewoodAdapter | MtRoseAdapter
  | PalisadesAdapter | SierraAtTahoeAdapter | SugarBowlAdapter | TahoeDonnerAdapter
  | VailResortsAdapter | PlaceholderHeadlessAdapter

definition ADAPTER_REGISTRY :: "(pystr \<times> adapter) list" where
  "ADAPTER_REGISTRY =
     [(ustr ''generic'', GenericHTMLAdapter),
      (ustr ''boreal'', BorealAdapter),
      (ustr ''diamond_peak'', DiamondPeakAdapter),
      (ustr ''homewood'', HomewoodAdapter),
      (ustr ''mt_rose'', MtRoseAdapter),
      (ustr ''palisades'', PalisadesAdapter),
      (ustr ''sierra_at_tahoe'', SierraAtTahoeAdapter),
      (ustr ''sugar_bowl'', SugarBowlAdapter),
      (ustr ''tahoe_donner'', TahoeDonnerAdapter),
      (ustr ''vail_resorts'', VailResortsAdapter),
      (ustr ''placeholder_headless'', PlaceholderHeadlessAdapter)]"

definition HEADLESS_ADAPTERS :: "pystr list" where
  "HEADLESS_ADAPTERS =
     [ustr ''boreal'', ustr ''palisades'', ustr ''tahoe_donner'', ustr ''placeholder_headless'']"

definition get_adapter :: "pystr \<Rightarrow> adapter" where
  "get_adapter k = (case map_of ADAPTER_REGISTRY k of None \<Rightarrow> GenericHTMLAdapter | Some a \<Rightarrow> a)"

definition requires_headless :: "pystr \<Rightarrow> bool" where
  "requires_headless k = (k \<in> set HEADLESS_ADAPTERS)"

section \<open>The orchestrator of \<open>main.py\<close>\<close>

text \<open>
  \<open>process_resort\<close> calls into the fetch layer, an adapter, the last-known-good store and the
  weather module. They are the fields of a \<open>world\<close>: each call takes the state of the outside
  world (\<open>'w\<close>: clock, cache, network, files) and returns its outcome, a value or an exception,
  with the new state. An adapter's \<open>parse\<close> has no effect on the world. The fields carry
  the prefix \<open>w_\<close>; the models of \<open>http.py\<close> and \<open>weather/nws.py\<close> keep the plain names.
  \<open>load_existing_resort\<close> catches every exception itself and returns \<open>None\<close>.
\<close>

record 'w world =
  HAS_PLAYWRIGHT :: bool
  utc_now :: "'w \<Rightarrow> datetime"
  w_fetch :: "pystr \<Rightarrow> 'w \<Rightarrow> pystr py \<times> 'w"
  w_fetch_headless :: "pystr \<Rightarrow> 'w \<Rightarrow> pystr py \<times> 'w"
  w_parse :: "adapter \<Rightarrow> pystr \<Rightarrow> ParseResult py"
  w_load_existing_resort :: "pystr \<Rightarrow> 'w \<Rightarrow> ResortConditions option \<times> 'w"
  w_fetch_weather :: "pyfloat \<Rightarrow> pyfloat \<Rightarrow> 'w \<Rightarrow> (Weather \<times> pystr \<times> pystr option) py \<times> 'w"

text \<open>The local variables \<open>stale\<close>, \<open>ops\<close> and \<open>snow\<close> of \<open>process_resort\<close>.\<close>

record locals =
  l_stale :: bool
  l_ops :: Operations
  l_snow :: Snow

definition locals0 :: locals where
  "locals0 = \<lparr>l_stale = False, l_ops = Operations0, l_snow = Snow0\<rparr>"

text \<open>\<open>existing = load_existing_resort(slug); if existing: ops = existing.ops; snow = existing.snow\<close>,
  after \<open>stale = True\<close>.\<close>

definition last_known_good :: "'w world \<Rightarrow> pystr \<Rightarrow> locals \<Rightarrow> 'w \<Rightarrow> locals \<times> 'w" where
  "last_known_good W sl l w =
     (case w_load_existing_resort W sl w of
        (None, w') \<Rightarrow> (l\<lparr>l_stale := True\<rparr>, w')
      | (Some existing, w') \<Rightarrow>
          (l\<lparr>l_stale := True, l_ops := ops existing, l_snow := snow existing\<rparr>, w'))"

text \<open>The first statement of the \<open>try\<close> block: the page, or \<open>None\<close> when the resort needs a
  browser and Playwright is not installed (then \<open>stale = True\<close> already).\<close>

definition fetch_html :: "'w world \<Rightarrow> ResortConfig \<Rightarrow> locals \<Rightarrow> 'w \<Rightarrow> (pystr option) py \<times> locals \<times> 'w" where
  "fetch_html W cfg l w =
     (if requires_headless (kind cfg) then
        (if \<not> HAS_PLAYWRIGHT W then (Inr None, l\<lparr>l_stale := True\<rparr>, w)
         else (case w_fetch_headless W (source_url cfg) w of
                 (Inl e, w') \<Rightarrow> (Inl e, l, w')
               | (Inr html, w') \<Rightarrow> (Inr (Some html), l, w')))
      else (case w_fetch W (source_url cfg) w of
              (Inl e, w') \<Rightarrow> (Inl e, l, w')
            | (Inr html, w') \<Rightarrow> (Inr (Some html), l, w')))"

text \<open>The body of the \<open>try\<close> block. It returns the exception that left it, if any, with the
  local variables as they were then.\<close>

definition conditions_try :: "'w world \<Rightarrow> ResortConfig \<Rightarrow> locals \<Rightarrow> 'w \<Rightarrow> exn option \<times> locals \<times> 'w" where
  "conditions_try W cfg l0 w0 =
     (case fetch_html W cfg l0 w0 of
        (Inl e, l, w) \<Rightarrow> (Some e, l, w)
      | (Inr None, l, w) \<Rightarrow> (None, l, w)
      | (Inr (Some html), l, w) \<Rightarrow>
          (case w_parse W (get_adapter (kind cfg)) html of
             Inl e \<Rightarrow> (Some e, l, w)
           | Inr result \<Rightarrow>
               if success result then
                 (let l' = l\<lparr>l_ops := pr_ops result, l_snow := pr_snow result\<rparr> in
                  case py_add (py_or0 (lifts_open (pr_ops result))) (py_or0 (lifts_scheduled (pr_ops result))) of
                    Inl e \<Rightarrow> (Some e, l', w)
                  | Inr lifts_avail \<Rightarrow> (None, l', w))
               else
                 (case last_known_good W (cfg_slug cfg) l w of
                    (l', w') \<Rightarrow> (None, l', w'))))"

text \<open>The \<open>try\<close> statement with its handler \<open>except FetchError\<close>; any other exception leaves
  \<open>process_resort\<close>.\<close>

definition conditions_block :: "'w world \<Rightarrow> ResortConfig \<Rightarrow> 'w \<Rightarrow> locals py \<times> 'w" where
  "conditions_block W cfg w0 =
     (case conditions_try W cfg locals0 w0 of
        (None, l, w) \<Rightarrow> (Inr l, w)
      | (Some e, l, w) \<Rightarrow>
          if catches FetchError (exn_cls e) then
            (case last_known_good W (cfg_slug cfg) l w of (l', w') \<Rightarrow> (Inr l', w'))
          else (Inl e, w))"

definition process_resort :: "'w world \<Rightarrow> ResortConfig \<Rightarrow> 'w \<Rightarrow> ResortConditions py \<times> 'w" where
  "process_resort W cfg w0 =
     (let now = utc_now W w0 in
      case conditions_block W cfg w0 of
        (Inl e, w1) \<Rightarrow> (Inl e, w1)
      | (Inr l, w1) \<Rightarrow>
          (case w_fetch_weather W (lat cfg) (lon cfg) w1 of
             (Inl e, w2) \<Rightarrow> (Inl e, w2)
           | (Inr (wx, points_url, forecast_url), w2) \<Rightarrow>
               (Inr \<lparr>slug = cfg_slug cfg, name = cfg_name cfg, fetched_at_utc = now,
                     stale = l_stale l,
                     sources = \<lparr>ops_url = source_url cfg, weather_points_url = Some points_url,
                                weather_forecast_url = forecast_url\<rparr>,
                     ops = l_ops l, snow = l_snow l, weather = wx\<rparr>, w2)))"

text \<open>One round of the loop of \<open>update_command\<close>: \<open>process_resort\<close> inside
  \<open>try ... except Exception\<close>, whose handler appends a stale entry.\<close>

definition stale_entry :: "ResortConfig \<Rightarrow> datetime \<Rightarrow> ResortConditions" where
  "stale_entry cfg now =
     \<lparr>slug = cfg_slug cfg, name = cfg_name cfg, fetched_at_utc = now, stale = True,
      sources = \<lparr>ops_url = source_url cfg, weather_points_url = None, weather_forecast_url = None\<rparr>,
      ops = Operations0, snow = Snow0, weather = Weather0\<rparr>"

definition process_one :: "'w world \<Rightarrow> ResortConfig \<Rightarrow> 'w \<Rightarrow> ResortConditions \<times> 'w" where
  "process_one W cfg w =
     (case process_resort W cfg w of
        (Inr conditions, w') \<Rightarrow> (conditions, w')
      | (Inl e, w') \<Rightarrow> (stale_entry cfg (utc_now W w'), w'))"



section \<open>The fetch layer of \<open>http.py\<close>\<close>

text \<open>The settings of \<open>config.py\<close>.\<close>

definition REQUEST_TIMEOUT :: nat where "REQUEST_TIMEOUT = 15"
definition RATE_LIMIT_DELAY :: rat where "RATE_LIMIT_DELAY = 3 / 2"
definition MAX_RETRIES :: nat where "MAX_RETRIES = 3"
definition RETRY_BACKOFF_BASE :: nat where "RETRY_BACKOFF_BASE = 2"

text \<open>
  What the module takes from libraries and from the network is a parameter: the MD5 digest,
  the date format, \<open>urlparse\<close>, the JSON codec, the browser, and the transport
  \<open>requests.get\<close>, which is given by what its \<open>k\<close>-th call (counted from 0 over the whole run)
  does for a URL: it returns a response (status code and text) or raises.
\<close>

datatype response = Response int pystr | Raises exn

record httplib =
  md5_hexdigest :: "pystr \<Rightarrow> pystr"
  strftime_Ymd :: "rat \<Rightarrow> pystr"
  netloc :: "pystr \<Rightarrow> pystr"
  requests_get :: "nat \<Rightarrow> pystr \<Rightarrow> response"
  json_loads :: "pystr \<Rightarrow> pyval py"
  json_dumps :: "pyval \<Rightarrow> pystr"
  playwright_installed :: bool
  page_content :: "nat \<Rightarrow> pystr \<Rightarrow> pystr py"

text \<open>
  The state the module reads and writes: the clock (\<open>time.time()\<close>; it advances when the
  code sleeps), the cache directory (a file has a modification time and a text, or cannot be
  read), whether the directory can be written, the table \<open>_last_request_time\<close>, and the number
  of transport calls and of browser runs made so far.
\<close>

record cache_file =
  st_mtime :: rat
  read_text :: "pystr py"

record http_state =
  clock :: rat
  files :: "pystr \<Rightarrow> cache_file option"
  writable :: bool
  last_request_time :: "pystr \<Rightarrow> rat option"
  calls :: nat
  renders :: nat

definition sleep :: "rat \<Rightarrow> http_state \<Rightarrow> http_state" where
  "sleep d s = s\<lparr>clock := clock s + d\<rparr>"

text \<open>\<open>_get_cache_path\<close>, \<open>_read_cache\<close>, \<open>_write_cache\<close> and \<open>_rate_limit\<close> (an Isabelle name
  cannot start with an underscore).\<close>

definition get_cache_path :: "httplib \<Rightarrow> http_state \<Rightarrow> pystr \<Rightarrow> pystr \<Rightarrow> pystr" where
  "get_cache_path L s url cache_key_suffix =
     (let url_hash = take 16 (md5_hexdigest L url);
          date_key = strftime_Ymd L (clock s)
      in ustr ''.cache/'' @ date_key @ ustr ''_'' @ url_hash @ cache_key_suffix @ ustr ''.cache'')"

definition read_cache :: "http_state \<Rightarrow> pystr \<Rightarrow> rat \<Rightarrow> pystr option" where
  "read_cache s cache_path ttl_seconds =
     (case files s cache_path of
        None \<Rightarrow> None
      | Some f \<Rightarrow>
          (let age = clock s - st_mtime f in
           if age > ttl_seconds then None
           else (case read_text f of Inl e \<Rightarrow> None | Inr text \<Rightarrow> Some text)))"

definition write_cache :: "pystr \<Rightarrow> pystr \<Rightarrow> http_state \<Rightarrow> http_state" where
  "write_cache cache_path content s =
     (if writable s
      then s\<lparr>files := (files s)(cache_path \<mapsto> \<lparr>st_mtime = clock s, read_text = Inr content\<rparr>)\<rparr>
      else s)"

definition rate_limit :: "httplib \<Rightarrow> pystr \<Rightarrow> http_state \<Rightarrow> http_state" where
  "rate_limit L url s =
     (let host = netloc L url;
          now = clock s;
          last = (case last_request_time s host of None \<Rightarrow> 0 | Some t \<Rightarrow> t);
          elapsed = now - last;
          s1 = (if elapsed < RATE_LIMIT_DELAY then sleep (RATE_LIMIT_DELAY - elapsed) s else s)
      in s1\<lparr>last_request_time := (last_request_time s1)(host \<mapsto> clock s1)\<rparr>)"

text \<open>
  \<open>_fetch_with_retry\<close>. \<open>attempt\<close> is the decorated function's body: one transport call, and
  a \<open>RequestException\<close> for a status from 500 to 599. The decorator
  \<open>@retry(stop=stop_after_attempt(MAX_RETRIES), wait=wait_exponential(multiplier=RETRY_BACKOFF_BASE, min=1, max=30),
  retry=retry_if_exception_type(RequestException), reraise=True)\<close> is the loop: an exception
  that is not a \<open>RequestException\<close> leaves at once, a \<open>RequestException\<close> in attempt
  \<open>MAX_RETRIES\<close> is raised again, and otherwise the loop sleeps and calls again.
\<close>

definition attempt :: "httplib \<Rightarrow> pystr \<Rightarrow> http_state \<Rightarrow> (int \<times> pystr) py \<times> http_state" where
  "attempt L url s =
     (let s' = s\<lparr>calls := Suc (calls s)\<rparr> in
      case requests_get L (calls s) url of
        Raises e \<Rightarrow> (Inl e, s')
      | Response status_code text \<Rightarrow>
          if 500 \<le> status_code \<and> status_code < 600
          then (Inl (Exn RequestException (ustr ''Server error'')), s')
          else (Inr (status_code, text), s'))"

definition wait_exponential :: "nat \<Rightarrow> rat" where
  "wait_exponential attempt_number =
     max 1 (min (of_nat RETRY_BACKOFF_BASE * 2 ^ (attempt_number - 1)) 30)"

function fetch_with_retry_from ::
  "httplib \<Rightarrow> pystr \<Rightarrow> nat \<Rightarrow> http_state \<Rightarrow> (int \<times> pystr) py \<times> http_state" where
  "fetch_with_retry_from L url attempt_number s =
     (case attempt L url s of
        (Inr response, s1) \<Rightarrow> (Inr response, s1)
      | (Inl e, s1) \<Rightarrow>
          if catches RequestException (exn_cls e) \<and> attempt_number < MAX_RETRIES
          then fetch_with_retry_from L url (Suc attempt_number)
                 (sleep (wait_exponential attempt_number) s1)
          else (Inl e, s1))"
  by pat_completeness auto
termination
  by (relation "measure (\<lambda>(L, url, attempt_number, s). MAX_RETRIES - attempt_number)") auto

definition fetch_with_retry :: "httplib \<Rightarrow> pystr \<Rightarrow> http_state \<Rightarrow> (int \<times> pystr) py \<times> http_state" where
  "fetch_with_retry L url s = fetch_with_retry_from L url 1 s"

text \<open>\<open>response.raise_for_status()\<close>: an \<open>HTTPError\<close> for a status from 400 to 599.\<close>

definition raise_for_status :: "int \<Rightarrow> unit py" where
  "raise_for_status status_code =
     (if 400 \<le> status_code \<and> status_code < 600 then Inl (Exn HTTPError (ustr ''Client Error''))
      else Inr ())"

definition FetchError_from :: "string \<Rightarrow> pystr \<Rightarrow> exn \<Rightarrow> exn" where
  "FetchError_from what url e = Exn FetchError (ustr what @ url @ ustr '': '' @ str_exn e)"

definition fetch ::
  "httplib \<Rightarrow> pystr \<Rightarrow> rat \<Rightarrow> pystr \<Rightarrow> bool \<Rightarrow> http_state \<Rightarrow> pystr py \<times> http_state" where
  "fetch L url ttl_seconds cache_key_suffix use_cache s =
     (let cache_path = get_cache_path L s url cache_key_suffix in
      case (if use_cache then read_cache s cache_path ttl_seconds else None) of
        Some cached \<Rightarrow> (Inr cached, s)
      | None \<Rightarrow>
          (case fetch_with_retry L url (rate_limit L url s) of
             (Inl e, s2) \<Rightarrow>
               if catches RequestException (exn_cls e)
               then (Inl (FetchError_from ''Failed to fetch '' url e), s2)
               else (Inl e, s2)
           | (Inr (status_code, text), s2) \<Rightarrow>
               (case raise_for_status status_code of
                  Inl e \<Rightarrow> (Inl (FetchError_from ''Failed to fetch '' url e), s2)
                | Inr u \<Rightarrow>
                    (Inr text, if use_cache then write_cache cache_path text s2 else s2))))"

text \<open>\<open>fetch_json\<close>: a cached text that is not JSON is fetched again; \<open>response.json()\<close>
  raises an exception that is both a \<open>RequestException\<close> and a \<open>JSONDecodeError\<close>, and either
  handler turns it into a \<open>FetchError\<close>.\<close>

definition fetch_json :: "httplib \<Rightarrow> pystr \<Rightarrow> rat \<Rightarrow> http_state \<Rightarrow> pyval py \<times> http_state" where
  "fetch_json L url ttl_seconds s =
     (let cache_path = get_cache_path L s url (ustr ''_json'') in
      case (case read_cache s cache_path ttl_seconds of
              None \<Rightarrow> None
            | Some cached \<Rightarrow> (case json_loads L cached of Inl e \<Rightarrow> None | Inr data \<Rightarrow> Some data)) of
        Some data \<Rightarrow> (Inr data, s)
      | None \<Rightarrow>
          (case fetch_with_retry L url (rate_limit L url s) of
             (Inl e, s2) \<Rightarrow>
               if catches RequestException (exn_cls e)
               then (Inl (FetchError_from ''Failed to fetch '' url e), s2)
               else if catches JSONDecodeError (exn_cls e)
               then (Inl (FetchError_from ''Invalid JSON from '' url e), s2)
               else (Inl e, s2)
           | (Inr (status_code, text), s2) \<Rightarrow>
               (case raise_for_status status_code of
                  Inl e \<Rightarrow> (Inl (FetchError_from ''Failed to fetch '' url e), s2)
                | Inr u \<Rightarrow>
                    (case json_loads L text of
                       Inl e \<Rightarrow> (Inl (FetchError_from ''Failed to fetch '' url e), s2)
                     | Inr data \<Rightarrow> (Inr data, write_cache cache_path (json_dumps L data) s2)))))"

text \<open>\<open>fetch_headless\<close>, with the defaults of its last two parameters: the browser block is
  one call of \<open>page_content\<close>, and every exception of it becomes a \<open>FetchError\<close>.\<close>

definition fetch_headless ::
  "httplib \<Rightarrow> pystr \<Rightarrow> rat \<Rightarrow> pystr \<Rightarrow> bool \<Rightarrow> http_state \<Rightarrow> pystr py \<times> http_state" where
  "fetch_headless L url ttl_seconds cache_key_suffix use_cache s =
     (if \<not> playwright_installed L
      then (Inl (Exn FetchError (ustr ''Playwright not installed - cannot fetch JavaScript-rendered pages'')), s)
      else
        (let cache_path = get_cache_path L s url cache_key_suffix in
         case (if use_cache then read_cache s cache_path ttl_seconds else None) of
           Some cached \<Rightarrow> (Inr cached, s)
         | None \<Rightarrow>
             (let s1 = rate_limit L url s; s2 = s1\<lparr>renders := Suc (renders s1)\<rparr> in
              case page_content L (renders s1) url of
                Inl e \<Rightarrow> (Inl (FetchError_from ''Headless fetch failed for '' url e), s2)
              | Inr content \<Rightarrow>
                  (Inr content, if use_cache then write_cache cache_path content s2 else s2))))"

section \<open>The weather module \<open>weather/nws.py\<close>\<close>

text \<open>
  Operations on dynamic values, as Python defines them: \<open>d.get(key, default)\<close> exists on a
  \<open>dict\<close> only (an \<open>AttributeError\<close> on anything else), \<open>x[0]\<close> is the first element of
  a list or string, \<open>float(v)\<close> accepts a number or a numeral string.
\<close>

definition attribute_error :: "string \<Rightarrow> exn" where
  "attribute_error msg = Exn AttributeError (ustr msg)"

definition py_get :: "pyval \<Rightarrow> string \<Rightarrow> pyval \<Rightarrow> pyval py" where
  "py_get d key dflt =
     (case d of
        PDict kvs \<Rightarrow> Inr (case map_of kvs (ustr key) of None \<Rightarrow> dflt | Some v \<Rightarrow> v)
      | _ \<Rightarrow> Inl (attribute_error ''object has no attribute get''))"

fun is_dict :: "pyval \<Rightarrow> bool" where
  "is_dict (PDict kvs) = True"
| "is_dict v = False"



definition py_float :: "(pystr \<Rightarrow> pyfloat py) \<Rightarrow> pyval \<Rightarrow> pyfloat py" where
  "py_float float_of_str v =
     (case v of
        PBool b \<Rightarrow> Inr (if b then 1 else 0)
      | PInt n \<Rightarrow> Inr (of_int n)
      | PFloat q \<Rightarrow> Inr q
      | PStr s \<Rightarrow> float_of_str s
      | _ \<Rightarrow> Inl (type_error ''float() argument must be a string or a real number''))"





text \<open>
  What \<open>fetch_weather\<close> takes from outside: \<open>fetch_json\<close> of the fetch layer (acting on the
  state of the world), the formatting of a coordinate in the points URL, and \<open>float\<close> on a
  string.
\<close>

record 'w nwslib =
  nws_fetch_json :: "pystr \<Rightarrow> rat \<Rightarrow> 'w \<Rightarrow> pyval py \<times> 'w"
  format_float :: "pyfloat \<Rightarrow> pystr"
  float_of_str :: "pystr \<Rightarrow> pyfloat py"


text \<open>The handler \<open>except FetchError\<close>, followed by the final \<open>return\<close>: it returns the local
  variables as they are when the exception arrives; any other exception leaves the function.\<close>

definition nws_except ::
  "exn \<Rightarrow> Weather \<Rightarrow> pystr \<Rightarrow> pystr option \<Rightarrow> (Weather \<times> pystr \<times> pystr option) py" where
  "nws_except e wx points_url forecast_url =
     (if catches FetchError (exn_cls e) then Inr (wx, points_url, forecast_url) else Inl e)"




section \<open>Parsed pages (the part of BeautifulSoup that the adapters use)\<close>

text \<open>
  A parsed page is a tree. A \<open>Text\<close> leaf is a string that \<open>get_text\<close> returns; a \<open>Special\<close>
  leaf is one it skips (a comment, and in the versions of the library that set script and
  style contents apart, those contents). An element has a name, attributes and children.
  The parser itself, \<open>BeautifulSoup(html, "lxml")\<close>, is a parameter of the adapters; the
  functions below are the library's navigation on its result.
\<close>

datatype node = Text pystr | Special pystr | Elem pystr "(pystr \<times> pystr) list" "node list"

fun strings :: "node \<Rightarrow> pystr list" where
  "strings (Text s) = [s]"
| "strings (Special s) = []"
| "strings (Elem n attrs children) = concat (map strings children)"

text \<open>\<open>tag.get_text(separator=sep)\<close> and \<open>tag.get_text(strip=True)\<close>.\<close>

definition get_text :: "pystr \<Rightarrow> node \<Rightarrow> pystr" where
  "get_text sep t = join sep (strings t)"

definition get_text_strip :: "node \<Rightarrow> pystr" where
  "get_text_strip t = join [] (filter (\<lambda>s. s \<noteq> []) (map strip (strings t)))"

text \<open>The elements below a node, in document order.\<close>

fun descendants :: "node \<Rightarrow> node list" where
  "descendants (Text s) = []"
| "descendants (Special s) = []"
| "descendants (Elem n attrs children) =
     concat (map (\<lambda>c. case c of Elem m a cs \<Rightarrow> c # descendants c | _ \<Rightarrow> []) children)"

fun tag_name :: "node \<Rightarrow> pystr" where
  "tag_name (Elem n attrs children) = n"
| "tag_name t = []"

text \<open>\<open>tag.get("class", [])\<close>: the class attribute is a list of names.\<close>

fun get_class :: "node \<Rightarrow> pystr list" where
  "get_class (Elem n attrs children) =
     (case map_of attrs (ustr ''class'') of None \<Rightarrow> [] | Some v \<Rightarrow> split_ws v)"
| "get_class t = []"

text \<open>\<open>find_all(class_=c)\<close> for a string and for a compiled pattern (searched in each class
  name), \<open>find_all(names)\<close>, and \<open>find\<close>, the first result or \<open>None\<close>.\<close>

definition find_all_class :: "pystr \<Rightarrow> node \<Rightarrow> node list" where
  "find_all_class c t = filter (\<lambda>e. c \<in> set (get_class e)) (descendants t)"

definition find_all_class_re :: "re \<Rightarrow> node \<Rightarrow> node list" where
  "find_all_class_re r t =
     filter (\<lambda>e. list_ex (\<lambda>c. re_search False r c \<noteq> None) (get_class e)) (descendants t)"

definition find_all_names :: "pystr list \<Rightarrow> node \<Rightarrow> node list" where
  "find_all_names names t = filter (\<lambda>e. tag_name e \<in> set names) (descendants t)"

definition find_class :: "pystr \<Rightarrow> node \<Rightarrow> node option" where
  "find_class c t = (case find_all_class c t of [] \<Rightarrow> None | e # es \<Rightarrow> Some e)"

text \<open>\<open>for tag in soup(names): tag.decompose()\<close>: the tree without the elements of these
  names.\<close>

fun decompose_all :: "pystr list \<Rightarrow> node \<Rightarrow> node" where
  "decompose_all names (Elem n attrs children) =
     Elem n attrs
       (map (decompose_all names)
          (filter (\<lambda>c. case c of Elem m a cs \<Rightarrow> m \<notin> set names | _ \<Rightarrow> True) children))"
| "decompose_all names t = t"

text \<open>\<open>tag.string\<close>: the string of a tag with a single child.\<close>

fun tag_string :: "node \<Rightarrow> pystr option" where
  "tag_string (Text s) = Some s"
| "tag_string (Special s) = Some s"
| "tag_string (Elem n attrs [c]) = tag_string c"
| "tag_string (Elem n attrs children) = None"

text \<open>
  What the adapters take from libraries: the HTML parser (it may raise, for instance when
  lxml is not installed), \<open>str(soup)\<close>, \<open>json.loads\<close> and \<open>float\<close> on an arbitrary string.
\<close>

record pylib =
  soup_of :: "pystr \<Rightarrow> node py"
  str_of_soup :: "node \<Rightarrow> pystr"
  json_of :: "pystr \<Rightarrow> pyval py"
  float_of :: "pystr \<Rightarrow> pyfloat py"

text \<open>
  Every adapter but the placeholder has the shape
  \<^verbatim>\<open>result = ParseResult(); try: ...; result.ops = ops; result.snow = snow; result.success = ...
  except Exception as e: result.error = str(e)\<close> and then \<open>return result\<close>.
  The body assigns to \<open>result\<close> only in its last statements, which cannot raise, so the handler
  finds the fresh \<open>ParseResult()\<close>. \<open>parse_guard\<close> is the \<open>try\<close> statement around a body.
\<close>

definition parse_guard :: "ParseResult py \<Rightarrow> ParseResult py" where
  "parse_guard body =
     (case body of
        Inr result \<Rightarrow> Inr result
      | Inl e \<Rightarrow>
          if catches Exception (exn_cls e) then Inr (ParseResult0\<lparr>error := Some (str_exn e)\<rparr>)
          else Inl e)"

text \<open>Pieces of patterns that recur: \<open>[:\s]*\<close>, the inch marks \<open>["\u2033]\<close>, a word with an
  optional plural \<open>s\<close>.\<close>

definition colon_ws :: re where
  "colon_ws = Star (Set [Ch 58, Space])"

definition inch_mark :: re where
  "inch_mark = Set [Ch 34, Ch 8243]"

definition dquote :: re where
  "dquote = Set [Ch 34]"

definition plural :: "string \<Rightarrow> re" where
  "plural w = Cat (lit w) (Opt (lit ''s''))"

text \<open>\<open>float(m.group(1))\<close> as an optional result, and the same for the first pattern of a
  list that matches.\<close>

definition float1 :: "rematch option \<Rightarrow> (pyfloat option) py" where
  "float1 mo = (case mo of None \<Rightarrow> Inr None | Some m \<Rightarrow> py_bind (group_float m 1) (\<lambda>v. Inr (Some v)))"

definition counts2 :: "rematch option \<Rightarrow> (pyval \<times> pyval) option py" where
  "counts2 mo =
     (case mo of
        None \<Rightarrow> Inr None
      | Some m \<Rightarrow> py_bind (int_pair m 1 2) (\<lambda>(a, b). Inr (Some (PInt a, PInt b))))"

text \<open>\<open>x is not None\<close> for a dynamic value.\<close>

definition is_not_None :: "pyval \<Rightarrow> bool" where
  "is_not_None v = (v \<noteq> PNone)"

section \<open>\<open>adapters/generic_html.py\<close> and \<open>adapters/placeholder_headless.py\<close>\<close>

text \<open>All patterns of the generic adapter are searched with \<open>re.IGNORECASE\<close>. Common pieces:
  \<^verbatim>\<open>(\d+)\s*/\s*(\d+)\<close>, \<^verbatim>\<open>(?:trails?|runs?)\<close> and \<^verbatim>\<open>(?:in|inches?)\<close>.\<close>

definition slash_pair :: re where
  "slash_pair = cats [Grp 1 digits, ws0, lit ''/'', ws0, Grp 2 digits]"

definition trails_or_runs :: re where
  "trails_or_runs = Alt (plural ''trail'') (plural ''run'')"

definition inch_word :: re where
  "inch_word = Alt (lit ''in'') (Cat (lit ''inche'') (Opt (lit ''s'')))"

definition hr_or_hour :: re where
  "hr_or_hour = Alt (lit ''hr'') (lit ''hour'')"

text \<open>\<open>_find_lift_counts\<close>: \<^verbatim>\<open>(\d+)\s*/\s*(\d+)\s*lifts?\<close>,
  \<^verbatim>\<open>lifts?\s*[:\s]*(\d+)\s*/\s*(\d+)\<close>, \<^verbatim>\<open>(\d+)\s+of\s+(\d+)\s+lifts?\<close>,
  \<^verbatim>\<open>lifts?\s+open[:\s]*(\d+)\s*/\s*(\d+)\<close>.\<close>

definition generic_lift_res :: "re list" where
  "generic_lift_res =
     [cats [slash_pair, ws0, plural ''lift''],
      cats [plural ''lift'', ws0, colon_ws, slash_pair],
      cats [Grp 1 digits, ws1, lit ''of'', ws1, Grp 2 digits, ws1, plural ''lift''],
      cats [plural ''lift'', ws1, lit ''open'', colon_ws, slash_pair]]"

definition generic_find_lift_counts :: "pystr \<Rightarrow> (pyval \<times> pyval) option py" where
  "generic_find_lift_counts text = counts2 (first_match True generic_lift_res text)"

text \<open>\<open>_find_trail_counts\<close>: \<^verbatim>\<open>(\d+)\s*/\s*(\d+)\s*(?:trails?|runs?)\<close>,
  \<^verbatim>\<open>(?:trails?|runs?)\s*[:\s]*(\d+)\s*/\s*(\d+)\<close>, \<^verbatim>\<open>(\d+)\s+of\s+(\d+)\s+(?:trails?|runs?)\<close>.\<close>

definition generic_trail_res :: "re list" where
  "generic_trail_res =
     [cats [slash_pair, ws0, trails_or_runs],
      cats [trails_or_runs, ws0, colon_ws, slash_pair],
      cats [Grp 1 digits, ws1, lit ''of'', ws1, Grp 2 digits, ws1, trails_or_runs]]"

definition generic_find_trail_counts :: "pystr \<Rightarrow> (pyval \<times> pyval) option py" where
  "generic_find_trail_counts text = counts2 (first_match True generic_trail_res text)"

text \<open>\<open>_find_open_status\<close>.\<close>

definition generic_find_open_status :: "pystr \<Rightarrow> Operations \<Rightarrow> (bool option) py" where
  "generic_find_open_status text_lower ops0 =
     (if contains text_lower (ustr ''resort closed'') \<or> contains text_lower (ustr ''mountain closed'')
      then Inr (Some False)
      else if contains text_lower (ustr ''resort open'') \<or> contains text_lower (ustr ''mountain open'')
      then Inr (Some True)
      else if is_not_None (lifts_open ops0)
      then py_bind (py_gt0 (lifts_open ops0)) (\<lambda>b. Inr (Some b))
      else Inr None)"

text \<open>\<open>_find_new_snow(text, hours)\<close>:
  \<^verbatim>\<open>(\d+(?:\.\d+)?)[\"\u2033]\s*(?:in\s+)?(?:last\s+)?{hours}\s*(?:hr|hour)\<close>,
  \<^verbatim>\<open>{hours}\s*(?:hr|hour)[s]?\s*[:\s]*(\d+(?:\.\d+)?)[\"\u2033]?\<close>,
  \<^verbatim>\<open>new\s+snow\s*\(?{hours}[h]?\)?\s*[:\s]*(\d+(?:\.\d+)?)\<close>,
  \<^verbatim>\<open>(\d+(?:\.\d+)?)\s*(?:in|inches?|\")\s*(?:in\s+)?{hours}\s*(?:hr|hour)\<close>.\<close>

definition generic_new_snow_res :: "pystr \<Rightarrow> re list" where
  "generic_new_snow_res hours =
     [cats [Grp 1 decimal, inch_mark, ws0, Opt (Cat (lit ''in'') ws1), Opt (Cat (lit ''last'') ws1),
            Lit hours, ws0, hr_or_hour],
      cats [Lit hours, ws0, hr_or_hour, Opt (Set [Ch 115]), ws0, colon_ws, Grp 1 decimal, Opt inch_mark],
      cats [lit ''new'', ws1, lit ''snow'', ws0, Opt (lit ''(''), Lit hours, Opt (Set [Ch 104]),
            Opt (lit '')''), ws0, colon_ws, Grp 1 decimal],
      cats [Grp 1 decimal, ws0, alts [lit ''in'', Cat (lit ''inche'') (Opt (lit ''s'')), dquote], ws0,
            Opt (Cat (lit ''in'') ws1), Lit hours, ws0, hr_or_hour]]"

definition generic_find_new_snow :: "pystr \<Rightarrow> pystr \<Rightarrow> (pyfloat option) py" where
  "generic_find_new_snow text hours = float1 (first_match True (generic_new_snow_res hours) text)"

text \<open>\<open>_find_base_depth\<close>:
  \<^verbatim>\<open>base\s*(?:depth)?[:\s]*(\d+(?:\.\d+)?)\s*[-\u2013]\s*(\d+(?:\.\d+)?)\<close>,
  \<^verbatim>\<open>base\s*(?:depth)?[:\s]*(\d+(?:\.\d+)?)[\"\u2033]?\s*(?:in|inches?)?\<close>,
  \<^verbatim>\<open>(\d+(?:\.\d+)?)[\"\u2033]?\s*base\<close>; a match whose last group is 2 is a range.\<close>

definition generic_base_res :: "re list" where
  "generic_base_res =
     [cats [lit ''base'', ws0, Opt (lit ''depth''), colon_ws, Grp 1 decimal, ws0,
            Set [Ch 45, Ch 8211], ws0, Grp 2 decimal],
      cats [lit ''base'', ws0, Opt (lit ''depth''), colon_ws, Grp 1 decimal, Opt inch_mark, ws0,
            Opt inch_word],
      cats [Grp 1 decimal, Opt inch_mark, ws0, lit ''base'']]"

definition generic_find_base_depth :: "pystr \<Rightarrow> (pyfloat option) py" where
  "generic_find_base_depth text =
     (case first_match True generic_base_res text of
        None \<Rightarrow> Inr None
      | Some m \<Rightarrow>
          if lastindex m = Some 2
          then py_bind (group_float m 1) (\<lambda>a. py_bind (group_float m 2) (\<lambda>b. Inr (Some ((a + b) / 2))))
          else py_bind (group_float m 1) (\<lambda>a. Inr (Some a)))"

text \<open>\<open>_find_season_total\<close>:
  \<^verbatim>\<open>season\s*total[:\s]*(\d+(?:\.\d+)?)[\"\u2033]?\s*(?:in|inches?)?\<close>,
  \<^verbatim>\<open>ytd[:\s]*(\d+(?:\.\d+)?)[\"\u2033]?\<close>,
  \<^verbatim>\<open>(\d+(?:\.\d+)?)[\"\u2033]?\s*(?:in|inches?)?\s*season\<close>.\<close>

definition generic_season_res :: "re list" where
  "generic_season_res =
     [cats [lit ''season'', ws0, lit ''total'', colon_ws, Grp 1 decimal, Opt inch_mark, ws0, Opt inch_word],
      cats [lit ''ytd'', colon_ws, Grp 1 decimal, Opt inch_mark],
      cats [Grp 1 decimal, Opt inch_mark, ws0, Opt inch_word, ws0, lit ''season'']]"

definition generic_find_season_total :: "pystr \<Rightarrow> (pyfloat option) py" where
  "generic_find_season_total text = float1 (first_match True generic_season_res text)"

text \<open>\<open>_find_surface\<close>: \<^verbatim>\<open>surface[:\s]+([A-Za-z\s,]+?)(?:\.|$|\n)\<close> and
  \<^verbatim>\<open>conditions?[:\s]+([A-Za-z\s,]+?)(?:\.|$|\n)\<close>; a pattern whose cleaned match has 50
  characters or more is passed over.\<close>

definition surface_tail :: re where
  "surface_tail =
     cats [Plus (Set [Ch 58, Space]),
           Grp 1 (LazyPlus (Set [Rng 65 90, Rng 97 122, Space, Ch 44])),
           alts [lit ''.'', Eol, Set [Ch 10]]]"

fun generic_surface_loop :: "re list \<Rightarrow> pystr \<Rightarrow> pystr option" where
  "generic_surface_loop [] text = None"
| "generic_surface_loop (pattern # patterns) text =
     (case re_search True pattern text of
        None \<Rightarrow> generic_surface_loop patterns text
      | Some m \<Rightarrow>
          (let surface = clean_text (group m 1) in
           if length surface < 50 then Some surface else generic_surface_loop patterns text))"

definition generic_find_surface :: "pystr \<Rightarrow> pystr option" where
  "generic_find_surface text =
     generic_surface_loop [Cat (lit ''surface'') surface_tail, Cat (plural ''condition'') surface_tail] text"

text \<open>\<open>GenericHTMLAdapter.parse\<close>: the body of the \<open>try\<close> block, and the method.\<close>

definition with_lifts :: "(pyval \<times> pyval) option \<Rightarrow> Operations \<Rightarrow> Operations" where
  "with_lifts lifts o1 =
     (case lifts of None \<Rightarrow> o1 | Some (a, b) \<Rightarrow> o1\<lparr>lifts_open := a, lifts_total := b\<rparr>)"

definition with_trails :: "(pyval \<times> pyval) option \<Rightarrow> Operations \<Rightarrow> Operations" where
  "with_trails trails o1 =
     (case trails of None \<Rightarrow> o1 | Some (a, b) \<Rightarrow> o1\<lparr>trails_open := a, trails_total := b\<rparr>)"

definition generic_body :: "pylib \<Rightarrow> pystr \<Rightarrow> ParseResult py" where
  "generic_body L html =
     py_bind (soup_of L html) (\<lambda>soup0.
     let soup = decompose_all [ustr ''script'', ustr ''style'', ustr ''noscript''] soup0;
         text = get_text (ustr '' '') soup;
         text_lower = lower text
     in
     py_bind (generic_find_lift_counts text) (\<lambda>lifts.
     py_bind (generic_find_trail_counts text) (\<lambda>trails.
     let ops2 = with_trails trails (with_lifts lifts Operations0) in
     py_bind (generic_find_open_status text_lower ops2) (\<lambda>flag.
     let ops3 = ops2\<lparr>open_flag := flag\<rparr> in
     py_bind (generic_find_new_snow text (ustr ''24'')) (\<lambda>s24.
     py_bind (generic_find_new_snow text (ustr ''48'')) (\<lambda>s48.
     py_bind (generic_find_base_depth text) (\<lambda>base.
     py_bind (generic_find_season_total text) (\<lambda>season.
     let snow1 = \<lparr>new_snow_24h_in = s24, new_snow_48h_in = s48, base_depth_in = base,
                  season_total_in = season, surface = generic_find_surface text,
                  report_updated_at = None\<rparr>;
         result = ParseResult0\<lparr>pr_ops := ops3, pr_snow := snow1\<rparr>
     in
     if is_not_None (lifts_open ops3) \<or> s24 \<noteq> None
     then Inr (result\<lparr>success := True\<rparr>)
     else Inr (result\<lparr>error := Some (ustr ''Could not extract meaningful data'')\<rparr>)))))))))"

definition generic_parse :: "pylib \<Rightarrow> pystr \<Rightarrow> ParseResult py" where
  "generic_parse L html = parse_guard (generic_body L html)"

text \<open>\<open>PlaceholderHeadlessAdapter.parse\<close> has no \<open>try\<close>: it builds its result and returns.\<close>

definition placeholder_parse :: "pylib \<Rightarrow> pystr \<Rightarrow> ParseResult py" where
  "placeholder_parse L html =
     Inr (ParseResult0\<lparr>success := False, needs_headless := True,
            error := Some (ustr ''This resort requires JavaScript rendering (headless browser)'')\<rparr>)"

section \<open>\<open>adapters/mt_rose.py\<close>\<close>

text \<open>
  \<open>re.sub(pattern, repl, text)\<close> for a pattern that matches no empty string (the program's
  two uses are \<^verbatim>\<open>\s+\<close> and \<^verbatim>\<open>,\s*([}\]])\<close>): the matches are replaced from left to
  right. \<open>collapse_ws\<close> is \<^verbatim>\<open>re.sub(r"\s+", " ", text)\<close>.
\<close>

function re_sub :: "bool \<Rightarrow> re \<Rightarrow> (rematch \<Rightarrow> pystr) \<Rightarrow> pystr \<Rightarrow> pystr" where
  "re_sub ic r repl [] = []"
| "re_sub ic r repl (c # cs) =
     (case match_at ic r 0 (c # cs) of
        None \<Rightarrow> c # re_sub ic r repl cs
      | Some m \<Rightarrow>
          if 0 < match_end m then repl m @ re_sub ic r repl (drop (match_end m) (c # cs))
          else c # re_sub ic r repl cs)"
  by pat_completeness auto
termination
  by (relation "measure (\<lambda>(ic, r, repl, s). length s)") auto

definition collapse_ws :: "pystr \<Rightarrow> pystr" where
  "collapse_ws text = re_sub False ws1 (\<lambda>m. ustr '' '') text"

text \<open>\<open>LIFT_NAMES\<close> and \<open>_count_lifts\<close>. The pattern for a lift is its name (escaped, so
  literal), then \<^verbatim>\<open>\s+(\w+(?:\s+\w+)*)\<close>, searched with \<open>re.IGNORECASE\<close>. A status that
  contains \<open>scheduled\<close> or \<open>open\<close> counts as open. The counters \<open>lifts_open\<close> and
  \<open>lifts_total\<close> of the source are \<open>n_open\<close> and \<open>n_total\<close> here.\<close>

definition LIFT_NAMES :: "pystr list" where
  "LIFT_NAMES =
     [ustr ''Northwest Express'', ustr ''Zephyr Express'', ustr ''Lakeview Express'', ustr ''Wizard'',
      ustr ''Magic'', ustr ''Galena'', ustr ''Chuter'', ustr ''Blazing Zephyr'']"

definition words_re :: re where
  "words_re = Cat (Plus (Set [Word])) (Star (Cat ws1 (Plus (Set [Word]))))"

definition lift_status_re :: "pystr \<Rightarrow> re" where
  "lift_status_re lift_name = cats [Lit lift_name, ws1, Grp 1 words_re]"

fun mt_rose_count_loop :: "pystr list \<Rightarrow> pystr \<Rightarrow> int \<times> int \<Rightarrow> int \<times> int" where
  "mt_rose_count_loop [] text (n_open, n_total) = (n_open, n_total)"
| "mt_rose_count_loop (lift_name # names) text (n_open, n_total) =
     (case re_search True (lift_status_re lift_name) text of
        None \<Rightarrow> mt_rose_count_loop names text (n_open, n_total)
      | Some m \<Rightarrow>
          (let status = lower (case group m 1 of None \<Rightarrow> [] | Some g \<Rightarrow> g) in
           if contains status (ustr ''scheduled'') \<or> contains status (ustr ''open'')
           then mt_rose_count_loop names text (n_open + 1, n_total + 1)
           else mt_rose_count_loop names text (n_open, n_total + 1)))"

definition mt_rose_count_lifts :: "pystr \<Rightarrow> pyval \<times> pyval" where
  "mt_rose_count_lifts text =
     (case mt_rose_count_loop LIFT_NAMES text (0, 0) of
        (n_open, n_total) \<Rightarrow>
          if n_total = 0 then (PNone, PNone) else (PInt n_open, PInt n_total))"

text \<open>\<open>_count_trails\<close>: \<^verbatim>\<open>(\d+)\s*/\s*(\d+)\s*(?:trails?|runs?)\<close> in the collapsed page
  text.\<close>

definition mt_rose_count_trails :: "node \<Rightarrow> (pyval \<times> pyval) py" where
  "mt_rose_count_trails soup =
     (let text = collapse_ws (get_text (ustr '' '') soup) in
      case re_search True (cats [slash_pair, ws0, trails_or_runs]) text of
        None \<Rightarrow> Inr (PNone, PNone)
      | Some m \<Rightarrow> py_bind (int_pair m 1 2) (\<lambda>(a, b). Inr (PInt a, PInt b)))"

text \<open>\<open>_parse_range\<close>, for the patterns \<^verbatim>\<open>new\s*snow[:\s]*(\d+)[-\u2013]?(\d+)?[\"\u2033]\<close>,
  \<^verbatim>\<open>base\s*(?:depth)?[:\s]*(\d+)[-\u2013]?(\d+)?[\"\u2033]\<close>,
  \<^verbatim>\<open>season\s*(?:total)?[:\s]*(\d+)[-\u2013]?(\d+)?[\"\u2033]\<close> and
  \<^verbatim>\<open>storm\s*(?:total)?[:\s]*(\d+)[-\u2013]?(\d+)?[\"\u2033]\<close>.\<close>

definition range_tail :: re where
  "range_tail = cats [colon_ws, Grp 1 digits, Opt (Set [Ch 45, Ch 8211]), Opt (Grp 2 digits), inch_mark]"

definition mt_rose_parse_range :: "pystr \<Rightarrow> re \<Rightarrow> (pyfloat option) py" where
  "mt_rose_parse_range text pattern =
     (case re_search True pattern text of
        None \<Rightarrow> Inr None
      | Some m \<Rightarrow>
          py_bind (group_float m 1) (\<lambda>low.
          case lastindex m of
            None \<Rightarrow> Inl (type_error ''>= not supported between instances of NoneType and int'')
          | Some li \<Rightarrow>
              (case (if 2 \<le> li then group m 2 else None) of
                 None \<Rightarrow> Inr (Some low)
               | Some high_str \<Rightarrow>
                   if high_str = [] then Inr (Some low)
                   else Inr (Some ((low + float_dec high_str) / 2)))))"

text \<open>\<open>v is not None and v > 0\<close>, and \<open>MtRoseAdapter.parse\<close>.\<close>

definition set_and_gt0 :: "pyval \<Rightarrow> bool py" where
  "set_and_gt0 v = (if is_not_None v then py_gt0 v else Inr False)"

definition mt_rose_body :: "pylib \<Rightarrow> pystr \<Rightarrow> ParseResult py" where
  "mt_rose_body L html =
     py_bind (soup_of L html) (\<lambda>soup.
     let lifts =
           (case find_class (ustr ''lift-status'') soup of
              Some lift_section \<Rightarrow> mt_rose_count_lifts (collapse_ws (get_text (ustr '' '') lift_section))
            | None \<Rightarrow> mt_rose_count_lifts (collapse_ws (get_text (ustr '' '') soup)))
     in
     py_bind (mt_rose_count_trails soup) (\<lambda>trails.
     let ops1 = Operations0\<lparr>lifts_open := fst lifts, lifts_total := snd lifts,
                            trails_open := fst trails, trails_total := snd trails\<rparr>;
         text = collapse_ws (get_text (ustr '' '') soup)
     in
     py_bind (mt_rose_parse_range text (cats [lit ''new'', ws0, lit ''snow'', range_tail])) (\<lambda>s24.
     py_bind (mt_rose_parse_range text (cats [lit ''base'', ws0, Opt (lit ''depth''), range_tail])) (\<lambda>base.
     py_bind (mt_rose_parse_range text (cats [lit ''season'', ws0, Opt (lit ''total''), range_tail])) (\<lambda>season.
     py_bind (mt_rose_parse_range text (cats [lit ''storm'', ws0, Opt (lit ''total''), range_tail])) (\<lambda>storm.
     let snow1 = Snow0\<lparr>new_snow_24h_in := s24, base_depth_in := base, season_total_in := season,
                        new_snow_48h_in := (if storm \<noteq> None \<and> storm \<noteq> Some 0 then storm else None)\<rparr>
     in
     py_bind (set_and_gt0 (lifts_open ops1)) (\<lambda>running.
     py_bind
       (if running then Inr True
        else if contains (lower text) (ustr ''closed'') \<and>
                \<not> contains (take (nat (find (lower text) (ustr ''closed'') + 20)) (lower text)) (ustr ''chutes'')
        then Inr False
        else set_and_gt0 (lifts_open ops1)) (\<lambda>flag.
     Inr (ParseResult0\<lparr>pr_ops := ops1\<lparr>open_flag := Some flag\<rparr>, pr_snow := snow1, success := True\<rparr>)))))))))"

definition mt_rose_parse :: "pylib \<Rightarrow> pystr \<Rightarrow> ParseResult py" where
  "mt_rose_parse L html = parse_guard (mt_rose_body L html)"

section \<open>\<open>adapters/vail_resorts.py\<close>\<close>

text \<open>More of Python on dynamic values: \<open>key in v\<close>, \<open>v[key]\<close> for a string key, and the
  elements that \<open>for x in v\<close> visits.\<close>

definition py_in :: "string \<Rightarrow> pyval \<Rightarrow> bool py" where
  "py_in key v =
     (case v of
        PDict kvs \<Rightarrow> Inr (map_of kvs (ustr key) \<noteq> None)
      | PList xs \<Rightarrow> Inr (PStr (ustr key) \<in> set xs)
      | PStr s \<Rightarrow> Inr (contains s (ustr key))
      | _ \<Rightarrow> Inl (type_error ''argument is not iterable''))"

definition py_getitem :: "pyval \<Rightarrow> string \<Rightarrow> pyval py" where
  "py_getitem v key =
     (case v of
        PDict kvs \<Rightarrow> (case map_of kvs (ustr key) of None \<Rightarrow> Inl (Exn KeyError (ustr key)) | Some x \<Rightarrow> Inr x)
      | PList xs \<Rightarrow> Inl (type_error ''list indices must be integers or slices, not str'')
      | PStr s \<Rightarrow> Inl (type_error ''string indices must be integers'')
      | _ \<Rightarrow> Inl (type_error ''object is not subscriptable''))"

definition py_iter :: "pyval \<Rightarrow> (pyval list) py" where
  "py_iter v =
     (case v of
        PList xs \<Rightarrow> Inr xs
      | PDict kvs \<Rightarrow> Inr (map (\<lambda>kv. PStr (fst kv)) kvs)
      | PStr s \<Rightarrow> Inr (map (\<lambda>c. PStr [c]) s)
      | _ \<Rightarrow> Inl (type_error ''object is not iterable''))"

text \<open>
  \<open>_extract_terrain_status_json\<close> and \<open>_extract_snow_report_json\<close>: the pattern
  \<^verbatim>\<open>FR\.TerrainStatusFeed\s*=\s*(\{[^;]+\});\<close> (or \<^verbatim>\<open>FR\.snowReportData\<close>) with
  \<open>re.DOTALL\<close>, trailing commas removed by \<^verbatim>\<open>re.sub(r",\s*([}\]])", r"\1", json_str)\<close>,
  then \<open>json.loads\<close>, whose \<open>JSONDecodeError\<close> is caught.
\<close>

definition fr_json_re :: "string \<Rightarrow> re" where
  "fr_json_re var =
     cats [lit ''FR.'', lit var, ws0, lit ''='', ws0,
           Grp 1 (cats [lit ''{'', Plus (NSet [Ch 59]), lit ''}'']), lit '';'']"

definition trailing_comma_re :: re where
  "trailing_comma_re = cats [lit '','', ws0, Grp 1 (Set [Ch 125, Ch 93])]"

definition vail_extract_json :: "pylib \<Rightarrow> string \<Rightarrow> pystr \<Rightarrow> (pyval option) py" where
  "vail_extract_json L var html =
     (case re_search False (fr_json_re var) html of
        None \<Rightarrow> Inr None
      | Some m \<Rightarrow>
          (case group m 1 of
             None \<Rightarrow> Inl (type_error ''expected string or bytes-like object'')
           | Some g \<Rightarrow>
               (let json_str = re_sub False trailing_comma_re
                                 (\<lambda>m'. case group m' 1 of None \<Rightarrow> [] | Some b \<Rightarrow> b) g in
                case json_of L json_str of
                  Inr data \<Rightarrow> Inr (Some data)
                | Inl e \<Rightarrow> if catches JSONDecodeError (exn_cls e) then Inr None else Inl e)))"

text \<open>\<open>_count_lift_statuses\<close>. The dictionary \<open>counts\<close> is a record. A status is an \<open>int\<close>
  (a \<open>bool\<close> is one: \<open>True == 1\<close>) or is compared as a lower-case string; the string of a
  value that is not a string is none of the status words.\<close>

record counts =
  c_open :: int
  c_scheduled :: int
  c_closed :: int
  c_hold :: int
  c_total :: int

definition counts0 :: counts where
  "counts0 = \<lparr>c_open = 0, c_scheduled = 0, c_closed = 0, c_hold = 0, c_total = 0\<rparr>"

definition count_status :: "pyval \<Rightarrow> counts \<Rightarrow> counts" where
  "count_status status c0 =
     (let c = c0\<lparr>c_total := c_total c0 + 1\<rparr> in
      case num_of status of
        Some (Inl n) \<Rightarrow>
          if n = 1 then c\<lparr>c_open := c_open c + 1\<rparr>
          else if n = 3 then c\<lparr>c_scheduled := c_scheduled c + 1\<rparr>
          else if n = 2 then c\<lparr>c_hold := c_hold c + 1\<rparr>
          else c\<lparr>c_closed := c_closed c + 1\<rparr>
      | _ \<Rightarrow>
          (case status of
             PStr s \<Rightarrow>
               (let status_str = lower s in
                if status_str = ustr ''open'' then c\<lparr>c_open := c_open c + 1\<rparr>
                else if status_str = ustr ''scheduled'' then c\<lparr>c_scheduled := c_scheduled c + 1\<rparr>
                else if status_str \<in> {ustr ''on-hold'', ustr ''on hold'', ustr ''hold''}
                then c\<lparr>c_hold := c_hold c + 1\<rparr>
                else c\<lparr>c_closed := c_closed c + 1\<rparr>)
           | _ \<Rightarrow> c\<lparr>c_closed := c_closed c + 1\<rparr>))"

fun vail_lift_loop :: "pyval list \<Rightarrow> counts \<Rightarrow> counts py" where
  "vail_lift_loop [] c = Inr c"
| "vail_lift_loop (lift # rest) c =
     py_bind (py_get lift ''Status'' (PInt 0)) (\<lambda>status. vail_lift_loop rest (count_status status c))"

definition vail_count_lift_statuses :: "pyval \<Rightarrow> counts py" where
  "vail_count_lift_statuses lifts = py_bind (py_iter lifts) (\<lambda>xs. vail_lift_loop xs counts0)"

text \<open>\<open>_count_trail_statuses\<close>: a trail is open when its \<open>IsOpen\<close> is true; no trail is
  counted as scheduled.\<close>

fun vail_trail_loop :: "pyval list \<Rightarrow> counts \<Rightarrow> counts py" where
  "vail_trail_loop [] c = Inr c"
| "vail_trail_loop (trail # rest) c =
     py_bind (py_get trail ''IsOpen'' (PBool False)) (\<lambda>is_open.
     vail_trail_loop rest
       (if truthy is_open then c\<lparr>c_total := c_total c + 1, c_open := c_open c + 1\<rparr>
        else c\<lparr>c_total := c_total c + 1, c_closed := c_closed c + 1\<rparr>))"

definition vail_count_trail_statuses :: "pyval list \<Rightarrow> counts py" where
  "vail_count_trail_statuses trails = vail_trail_loop trails counts0"

text \<open>The loop \<open>for area in terrain_data["GroomingAreas"]: all_trails.extend(area.get("Trails", []))\<close>.\<close>

fun vail_all_trails :: "pyval list \<Rightarrow> pyval list \<Rightarrow> (pyval list) py" where
  "vail_all_trails [] all_trails = Inr all_trails"
| "vail_all_trails (area # rest) all_trails =
     py_bind (py_get area ''Trails'' (PList [])) (\<lambda>ts.
     py_bind (py_iter ts) (\<lambda>xs. vail_all_trails rest (all_trails @ xs)))"

text \<open>\<open>_parse_json_data\<close> with its local function \<open>extract_inches\<close>; the pattern for a string
  is \<^verbatim>\<open>(\d+(?:\.\d+)?)\s*inch\<close>.\<close>

definition extract_inches :: "pylib \<Rightarrow> pyval \<Rightarrow> (pyfloat option) py" where
  "extract_inches L v =
     (if \<not> truthy v then Inr None
      else
        (case v of
           PDict kvs \<Rightarrow>
             (let inches_str = (case map_of kvs (ustr ''Inches'') of None \<Rightarrow> PStr [] | Some x \<Rightarrow> x) in
              case (if truthy inches_str \<and> inches_str \<noteq> PStr (ustr ''0'')
                    then (case py_float (float_of L) inches_str of
                            Inr q \<Rightarrow> Inr (Some q)
                          | Inl e \<Rightarrow> if catches ValueError (exn_cls e) then Inr None else Inl e)
                    else Inr None) of
                Inl e \<Rightarrow> Inl e
              | Inr (Some q) \<Rightarrow> Inr (Some q)
              | Inr None \<Rightarrow> Inr (if inches_str = PStr (ustr ''0'') then Some 0 else None))
         | PStr s \<Rightarrow> float1 (re_search True (cats [Grp 1 decimal, ws0, lit ''inch'']) s)
         | _ \<Rightarrow> Inr None))"

definition vail_parse_json_data :: "pylib \<Rightarrow> pyval \<Rightarrow> Snow py" where
  "vail_parse_json_data L data =
     py_bind (py_get data ''TwentyFourHourSnowfall'' PNone) (\<lambda>v24.
     py_bind (extract_inches L v24) (\<lambda>s24a.
     py_bind (if s24a = None
              then py_bind (py_get data ''OvernightSnowfall'' PNone) (extract_inches L)
              else Inr s24a) (\<lambda>s24.
     py_bind (py_get data ''FortyEightHourSnowfall'' PNone) (\<lambda>v48.
     py_bind (extract_inches L v48) (\<lambda>s48.
     py_bind (py_get data ''BaseDepth'' PNone) (\<lambda>vb.
     py_bind (extract_inches L vb) (\<lambda>base.
     py_bind (py_get data ''CurrentSeason'' PNone) (\<lambda>vs.
     py_bind (extract_inches L vs) (\<lambda>season.
     Inr (Snow0\<lparr>new_snow_24h_in := s24, new_snow_48h_in := s48, base_depth_in := base,
                 season_total_in := season\<rparr>))))))))))"

text \<open>\<open>_parse_html_fallback\<close>: \<^verbatim>\<open>24\s*(?:hr|hour)[s]?[:\s]*(\d+(?:\.\d+)?)\<close>, the same for
  48, \<^verbatim>\<open>base[:\s]*(\d+(?:\.\d+)?)\s*(?:in|\")\<close> and \<^verbatim>\<open>season[:\s]*(\d+(?:\.\d+)?)\<close>.\<close>

definition hours_then_number :: "string \<Rightarrow> re" where
  "hours_then_number h = cats [lit h, ws0, hr_or_hour, Opt (Set [Ch 115]), colon_ws, Grp 1 decimal]"

definition vail_parse_html_fallback :: "pystr \<Rightarrow> Snow py" where
  "vail_parse_html_fallback text =
     py_bind (float1 (re_search True (hours_then_number ''24'') text)) (\<lambda>s24.
     py_bind (float1 (re_search True (hours_then_number ''48'') text)) (\<lambda>s48.
     py_bind (float1 (re_search True
                (cats [lit ''base'', colon_ws, Grp 1 decimal, ws0, Alt (lit ''in'') dquote]) text)) (\<lambda>base.
     py_bind (float1 (re_search True (cats [lit ''season'', colon_ws, Grp 1 decimal]) text)) (\<lambda>season.
     Inr (Snow0\<lparr>new_snow_24h_in := s24, new_snow_48h_in := s48, base_depth_in := base,
                 season_total_in := season\<rparr>)))))"

text \<open>The lifts and the trails of \<open>VailResortsAdapter.parse\<close>; \<open>keyed d key\<close> is the test
  \<open>terrain_data and key in terrain_data\<close>, returning the dictionary when it holds. The fallback patterns are
  \<^verbatim>\<open>(\d+)\s*/\s*(\d+)\s*Lifts?(?:\s*Open)?\<close> and
  \<^verbatim>\<open>(\d+)\s*/\s*(\d+)\s*(?:Trails?|Runs?)(?:\s*Open)?\<close>; of \<open>re.findall\<close> only the first match
  is used, which is the match of \<open>re.search\<close>.\<close>

definition keyed :: "pyval option \<Rightarrow> string \<Rightarrow> (pyval option) py" where
  "keyed terrain_data key =
     (case terrain_data of
        None \<Rightarrow> Inr None
      | Some d \<Rightarrow>
          if truthy d then py_bind (py_in key d) (\<lambda>b. Inr (if b then Some d else None))
          else Inr None)"

definition vail_lifts :: "pyval option \<Rightarrow> pystr \<Rightarrow> Operations \<Rightarrow> Operations py" where
  "vail_lifts terrain_data text o1 =
     py_bind (keyed terrain_data ''Lifts'') (\<lambda>with_lifts_key.
     case with_lifts_key of
       Some d \<Rightarrow>
         py_bind (py_getitem d ''Lifts'') (\<lambda>lifts.
         py_bind (vail_count_lift_statuses lifts) (\<lambda>c.
         Inr (o1\<lparr>lifts_open := PInt (c_open c), lifts_scheduled := PInt (c_scheduled c),
                  lifts_total := PInt (c_total c)\<rparr>)))
     | None \<Rightarrow>
       py_bind (counts2 (re_search True
                  (cats [slash_pair, ws0, plural ''lift'', Opt (Cat ws0 (lit ''open''))]) text)) (\<lambda>lifts.
       Inr (with_lifts lifts o1)))"

definition vail_trails :: "pyval option \<Rightarrow> pystr \<Rightarrow> Operations \<Rightarrow> Operations py" where
  "vail_trails terrain_data text o1 =
     py_bind (keyed terrain_data ''GroomingAreas'') (\<lambda>with_areas_key.
     py_bind
       (case with_areas_key of
          Some d \<Rightarrow>
          py_bind (py_getitem d ''GroomingAreas'') (\<lambda>areas.
          py_bind (py_iter areas) (\<lambda>xs.
          py_bind (vail_all_trails xs []) (\<lambda>all_trails.
          if all_trails \<noteq> [] then
            py_bind (vail_count_trail_statuses all_trails) (\<lambda>c.
            Inr (o1\<lparr>trails_open := PInt (c_open c), trails_scheduled := PInt (c_scheduled c),
                     trails_total := PInt (c_total c)\<rparr>))
          else Inr o1)))
        | None \<Rightarrow> Inr o1) (\<lambda>o2.
     if trails_total o2 = PNone then
       py_bind (counts2 (re_search True
                  (cats [slash_pair, ws0, trails_or_runs, Opt (Cat ws0 (lit ''open''))]) text)) (\<lambda>trails.
       Inr (with_trails trails o2))
     else Inr o2))"

text \<open>The open status: scheduled lifts and trails count as activity.\<close>

definition vail_open_flag :: "Operations \<Rightarrow> (bool option) py" where
  "vail_open_flag o1 =
     py_bind (py_add (py_or0 (lifts_open o1)) (py_or0 (lifts_scheduled o1))) (\<lambda>lifts_active.
     py_bind (py_add (py_or0 (trails_open o1)) (py_or0 (trails_scheduled o1))) (\<lambda>trails_active.
     py_bind (py_gt0 lifts_active) (\<lambda>la.
     if la then Inr (Some True)
     else
       py_bind (py_gt0 trails_active) (\<lambda>ta.
       if ta then Inr (Some True)
       else if is_not_None (lifts_open o1) \<or> is_not_None (lifts_scheduled o1) then Inr (Some False)
       else Inr None))))"

definition vail_body :: "pylib \<Rightarrow> pystr \<Rightarrow> ParseResult py" where
  "vail_body L html =
     py_bind (soup_of L html) (\<lambda>soup.
     let text = collapse_ws (get_text (ustr '' '') soup) in
     py_bind (vail_extract_json L ''TerrainStatusFeed'' html) (\<lambda>terrain_data.
     py_bind (vail_lifts terrain_data text Operations0) (\<lambda>ops1.
     py_bind (vail_trails terrain_data text ops1) (\<lambda>ops2.
     py_bind (vail_extract_json L ''snowReportData'' html) (\<lambda>json_data.
     py_bind (case json_data of
                None \<Rightarrow> vail_parse_html_fallback text
              | Some d \<Rightarrow> if truthy d then vail_parse_json_data L d else vail_parse_html_fallback text) (\<lambda>snow1.
     py_bind (vail_open_flag ops2) (\<lambda>flag.
     Inr (ParseResult0\<lparr>pr_ops := ops2\<lparr>open_flag := flag\<rparr>, pr_snow := snow1, success := True\<rparr>))))))))"

definition vail_parse :: "pylib \<Rightarrow> pystr \<Rightarrow> ParseResult py" where
  "vail_parse L html = parse_guard (vail_body L html)"

section \<open>\<open>adapters/diamond_peak.py\<close>\<close>

text \<open>
  The lift rows: elements of class \<open>conditions__row--header\<close> with a label and a status; a
  row counts as a lift when its label contains \<open>Lift\<close>, \<open>Chair\<close>, \<open>Powerline\<close> or \<open>Express\<close>,
  and as open when its status is \<open>open\<close> or \<open>groomed\<close>.
\<close>

fun diamond_lift_loop :: "node list \<Rightarrow> int \<times> int \<Rightarrow> int \<times> int" where
  "diamond_lift_loop [] (n_open, n_total) = (n_open, n_total)"
| "diamond_lift_loop (row # rows) (n_open, n_total) =
     (case (find_class (ustr ''conditions__label'') row, find_class (ustr ''conditions__status'') row) of
        (Some label, Some status) \<Rightarrow>
          (let label_text = strip (get_text [] label);
               status_text = lower (strip (get_text [] status))
           in
           if list_ex (contains label_text) [ustr ''Lift'', ustr ''Chair'', ustr ''Powerline'', ustr ''Express'']
           then diamond_lift_loop rows
                  (if status_text \<in> {ustr ''open'', ustr ''groomed''} then n_open + 1 else n_open, n_total + 1)
           else diamond_lift_loop rows (n_open, n_total))
      | _ \<Rightarrow> diamond_lift_loop rows (n_open, n_total))"

text \<open>The trail rows: elements with a class that \<^verbatim>\<open>conditions__row--(?:open|groomed|closed)\<close>
  matches, but the header rows and the rows whose label contains \<open>Village\<close>.\<close>

definition diamond_row_re :: re where
  "diamond_row_re = Cat (lit ''conditions__row--'') (alts [lit ''open'', lit ''groomed'', lit ''closed''])"

fun diamond_trail_loop :: "node list \<Rightarrow> int \<times> int \<Rightarrow> int \<times> int" where
  "diamond_trail_loop [] (n_open, n_total) = (n_open, n_total)"
| "diamond_trail_loop (row # rows) (n_open, n_total) =
     (let classes = get_class row in
      if ustr ''conditions__row--header'' \<in> set classes then diamond_trail_loop rows (n_open, n_total)
      else
        (case find_class (ustr ''conditions__label'') row of
           Some label \<Rightarrow>
             if contains (get_text [] label) (ustr ''Village'') then diamond_trail_loop rows (n_open, n_total)
             else diamond_trail_loop rows
                    (if ustr ''conditions__row--open'' \<in> set classes \<or> ustr ''conditions__row--groomed'' \<in> set classes
                     then n_open + 1 else n_open, n_total + 1)
         | None \<Rightarrow>
             diamond_trail_loop rows
               (if ustr ''conditions__row--open'' \<in> set classes \<or> ustr ''conditions__row--groomed'' \<in> set classes
                then n_open + 1 else n_open, n_total + 1)))"

text \<open>
  \<open>_extract_snow_value\<close>: the first pattern that matches gives \<open>float(match.group(1))\<close> (the
  handler for \<open>ValueError\<close> and \<open>IndexError\<close> goes on to the next pattern). The patterns:
  \<^verbatim>\<open>(\d+)\s*(?:Inches?|\")\s*24\s*H\<close> and \<^verbatim>\<open>24\s*[Hh](?:our)?[s]?[:\s]*(\d+)\<close>;
  \<^verbatim>\<open>(\d+)\s*(?:Inches?|\")\s*overnight\<close> and \<^verbatim>\<open>overnight[:\s]*(\d+)\<close>;
  \<^verbatim>\<open>base[:\s]*(\d+)\s*(?:Inches?|\")\<close>, the same for \<open>peak\<close> and \<open>season\<close>;
  \<^verbatim>\<open>storm\s*(?:total)?[:\s]*(\d+)\s*(?:Inches?|\")\<close> and
  \<^verbatim>\<open>(\d+)\s*(?:Inches?|\")\s*storm\s*(?:total)?\<close>.
\<close>

definition inches_unit :: re where
  "inches_unit = Alt (Cat (lit ''Inche'') (Opt (lit ''s''))) dquote"

fun diamond_extract_snow_value :: "pystr \<Rightarrow> re list \<Rightarrow> (pyfloat option) py" where
  "diamond_extract_snow_value text [] = Inr None"
| "diamond_extract_snow_value text (pattern # patterns) =
     (case re_search True pattern text of
        None \<Rightarrow> diamond_extract_snow_value text patterns
      | Some m \<Rightarrow>
          (case group_float m 1 of
             Inr v \<Rightarrow> Inr (Some v)
           | Inl e \<Rightarrow>
               if catches ValueError (exn_cls e) \<or> catches IndexError (exn_cls e)
               then diamond_extract_snow_value text patterns
               else Inl e))"

definition labelled_inches :: "string \<Rightarrow> re" where
  "labelled_inches label = cats [lit label, colon_ws, Grp 1 digits, ws0, inches_unit]"

definition diamond_body :: "pylib \<Rightarrow> pystr \<Rightarrow> ParseResult py" where
  "diamond_body L html =
     py_bind (soup_of L html) (\<lambda>soup.
     let text = get_text (ustr '' '') soup;
         lifts = diamond_lift_loop (find_all_class (ustr ''conditions__row--header'') soup) (0, 0);
         ops1 = (if 0 < snd lifts
                 then Operations0\<lparr>lifts_open := PInt (fst lifts), lifts_total := PInt (snd lifts)\<rparr>
                 else Operations0);
         trails = diamond_trail_loop (find_all_class_re diamond_row_re soup) (0, 0);
         ops2 = (if 0 < snd trails
                 then ops1\<lparr>trails_open := PInt (fst trails), trails_total := PInt (snd trails)\<rparr>
                 else ops1)
     in
     py_bind (diamond_extract_snow_value text
                [cats [Grp 1 digits, ws0, inches_unit, ws0, lit ''24'', ws0, lit ''H''],
                 cats [lit ''24'', ws0, Set [Ch 72, Ch 104], Opt (lit ''our''), Opt (Set [Ch 115]),
                       colon_ws, Grp 1 digits]]) (\<lambda>s24a.
     py_bind (if s24a = None
              then diamond_extract_snow_value text
                     [cats [Grp 1 digits, ws0, inches_unit, ws0, lit ''overnight''],
                      cats [lit ''overnight'', colon_ws, Grp 1 digits]]
              else Inr s24a) (\<lambda>s24.
     py_bind (float1 (re_search True (labelled_inches ''base'') text)) (\<lambda>base_a.
     py_bind (if base_a = None then float1 (re_search True (labelled_inches ''peak'') text)
              else Inr base_a) (\<lambda>base.
     py_bind (float1 (re_search True (labelled_inches ''season'') text)) (\<lambda>season.
     py_bind (float1 (first_match True
                [cats [lit ''storm'', ws0, Opt (lit ''total''), colon_ws, Grp 1 digits, ws0, inches_unit],
                 cats [Grp 1 digits, ws0, inches_unit, ws0, lit ''storm'', ws0, Opt (lit ''total'')]]
                text)) (\<lambda>storm.
     let snow1 = Snow0\<lparr>new_snow_24h_in := s24, base_depth_in := base, season_total_in := season,
                        new_snow_48h_in := storm\<rparr>
     in
     py_bind (if is_not_None (lifts_open ops2)
              then py_bind (py_gt0 (lifts_open ops2)) (\<lambda>b. Inr (Some b))
              else if contains (lower text) (ustr ''mountain closed'') \<or>
                      contains (lower text) (ustr ''closed for season'')
              then Inr (Some False)
              else if contains (lower text) (ustr ''open'') then Inr (Some True)
              else Inr None) (\<lambda>flag.
     Inr (ParseResult0\<lparr>pr_ops := ops2\<lparr>open_flag := flag\<rparr>, pr_snow := snow1, success := True\<rparr>)))))))))"

definition diamond_parse :: "pylib \<Rightarrow> pystr \<Rightarrow> ParseResult py" where
  "diamond_parse L html = parse_guard (diamond_body L html)"

section \<open>\<open>adapters/palisades.py\<close>\<close>

text \<open>
  The widget patterns on the raw page, with \<open>re.IGNORECASE | re.DOTALL\<close>:
  \<^verbatim>\<open>Lifts</h3>.*?<strong>(\d+)/(\d+)</strong>.*?Open\<close> and the same for \<open>Trails\<close>.
  The fallbacks on the page text:
  \<^verbatim>\<open>(\d+)\s*(?:of|/)\s*(\d+)\s*lifts?\s*(?:open|running)\<close>,
  \<^verbatim>\<open>lifts?\s*(?:open|running)[:\s]*(\d+)\s*(?:of|/)\s*(\d+)\<close>,
  \<^verbatim>\<open>(\d+)\s*(?:of|/)\s*(\d+)\s*(?:trails?|runs?)\s*(?:open|groomed)\<close>,
  \<^verbatim>\<open>(?:trails?|runs?)\s*(?:open|groomed)[:\s]*(\d+)\s*(?:of|/)\s*(\d+)\<close>.
\<close>

definition widget_re :: "string \<Rightarrow> re" where
  "widget_re title =
     cats [lit title, lit ''</h3>'', LazyStar DotAll, lit ''<strong>'', Grp 1 digits, lit ''/'',
           Grp 2 digits, lit ''</strong>'', LazyStar DotAll, lit ''Open'']"

definition of_pair :: re where
  "of_pair = cats [Grp 1 digits, ws0, Alt (lit ''of'') (lit ''/''), ws0, Grp 2 digits]"

definition palisades_lift_res :: "re list" where
  "palisades_lift_res =
     [cats [of_pair, ws0, plural ''lift'', ws0, Alt (lit ''open'') (lit ''running'')],
      cats [plural ''lift'', ws0, Alt (lit ''open'') (lit ''running''), colon_ws, of_pair]]"

definition palisades_trail_res :: "re list" where
  "palisades_trail_res =
     [cats [of_pair, ws0, trails_or_runs, ws0, Alt (lit ''open'') (lit ''groomed'')],
      cats [trails_or_runs, ws0, Alt (lit ''open'') (lit ''groomed''), colon_ws, of_pair]]"

text \<open>
  \<open>_parse_mtnfeed_json(data, ops, snow)\<close> mutates \<open>ops\<close> and \<open>snow\<close> inside
  \<open>try ... except Exception\<close>: what it has assigned before an exception stays. Each step below
  returns the new pair, or the exception; \<open>mtnfeed_steps\<close> runs the steps and stops at the
  first exception with the pair as it is then (every exception class of the model is an
  \<open>Exception\<close>). The three snow assignments are three steps, each after the test
  \<open>"snow" in data\<close> and \<open>isinstance(snow_data, dict)\<close>, which gives the same answer each time.
\<close>

type_synonym facts = "Operations \<times> Snow"

definition mtnfeed_lifts :: "pyval \<Rightarrow> facts \<Rightarrow> facts py" where
  "mtnfeed_lifts data f =
     py_bind (py_in ''lifts'' data) (\<lambda>present.
     if present then
       py_bind (py_getitem data ''lifts'') (\<lambda>lifts.
       if is_dict lifts then
         py_bind (py_get lifts ''open'' (lifts_open (fst f))) (\<lambda>a.
         py_bind (py_get lifts ''total'' (lifts_total (fst f))) (\<lambda>b.
         Inr ((fst f)\<lparr>lifts_open := a, lifts_total := b\<rparr>, snd f)))
       else Inr f)
     else Inr f)"

definition mtnfeed_trails :: "pyval \<Rightarrow> facts \<Rightarrow> facts py" where
  "mtnfeed_trails data f =
     py_bind (py_in ''trails'' data) (\<lambda>has_trails.
     py_bind (if has_trails then Inr True else py_in ''runs'' data) (\<lambda>present.
     if present then
       py_bind (py_get data ''trails'' PNone) (\<lambda>t1.
       py_bind (if truthy t1 then Inr t1 else py_get data ''runs'' (PDict [])) (\<lambda>trails.
       if is_dict trails then
         py_bind (py_get trails ''open'' (trails_open (fst f))) (\<lambda>a.
         py_bind (py_get trails ''total'' (trails_total (fst f))) (\<lambda>b.
         Inr ((fst f)\<lparr>trails_open := a, trails_total := b\<rparr>, snd f)))
       else Inr f))
     else Inr f))"

definition mtnfeed_snow_key ::
  "pylib \<Rightarrow> pyval \<Rightarrow> string \<Rightarrow> (pyfloat \<Rightarrow> Snow \<Rightarrow> Snow) \<Rightarrow> facts \<Rightarrow> facts py" where
  "mtnfeed_snow_key L snow_data key store f =
     py_bind (py_in key snow_data) (\<lambda>present.
     if present then
       py_bind (py_getitem snow_data key) (\<lambda>v.
       py_bind (py_float (float_of L) v) (\<lambda>q. Inr (fst f, store q (snd f))))
     else Inr f)"

definition mtnfeed_snow_data :: "pyval \<Rightarrow> (pyval option) py" where
  "mtnfeed_snow_data data =
     py_bind (py_in ''snow'' data) (\<lambda>present.
     if present then
       py_bind (py_getitem data ''snow'') (\<lambda>snow_data.
       Inr (if is_dict snow_data then Some snow_data else None))
     else Inr None)"

definition mtnfeed_snow ::
  "pylib \<Rightarrow> pyval \<Rightarrow> string \<Rightarrow> (pyfloat \<Rightarrow> Snow \<Rightarrow> Snow) \<Rightarrow> facts \<Rightarrow> facts py" where
  "mtnfeed_snow L data key store f =
     py_bind (mtnfeed_snow_data data) (\<lambda>sd.
     case sd of None \<Rightarrow> Inr f | Some snow_data \<Rightarrow> mtnfeed_snow_key L snow_data key store f)"

fun mtnfeed_steps :: "(facts \<Rightarrow> facts py) list \<Rightarrow> facts \<Rightarrow> facts" where
  "mtnfeed_steps [] f = f"
| "mtnfeed_steps (step # steps) f =
     (case step f of
        Inr f' \<Rightarrow> mtnfeed_steps steps f'
      | Inl e \<Rightarrow> f)"

definition palisades_parse_mtnfeed_json :: "pylib \<Rightarrow> pyval \<Rightarrow> facts \<Rightarrow> facts" where
  "palisades_parse_mtnfeed_json L data f =
     mtnfeed_steps
       [mtnfeed_lifts data,
        mtnfeed_trails data,
        mtnfeed_snow L data ''24hr'' (\<lambda>q s. s\<lparr>new_snow_24h_in := Some q\<rparr>),
        mtnfeed_snow L data ''base'' (\<lambda>q s. s\<lparr>base_depth_in := Some q\<rparr>),
        mtnfeed_snow L data ''season'' (\<lambda>q s. s\<lparr>season_total_in := Some q\<rparr>)]
       f"

text \<open>
  The loop over the script tags: a script whose string contains \<open>__INITIAL_STATE__\<close> and
  matches \<^verbatim>\<open>__INITIAL_STATE__\s*=\s*({.+?});\<close> (with \<open>re.DOTALL\<close>) is decoded; a
  \<open>JSONDecodeError\<close> is passed over, any other exception of \<open>json.loads\<close> leaves the loop.
\<close>

definition initial_state_re :: re where
  "initial_state_re =
     cats [lit ''__INITIAL_STATE__'', ws0, lit ''='', ws0,
           Grp 1 (cats [lit ''{'', LazyPlus DotAll, lit ''}'']), lit '';'']"

fun palisades_scripts :: "pylib \<Rightarrow> node list \<Rightarrow> facts \<Rightarrow> facts py" where
  "palisades_scripts L [] f = Inr f"
| "palisades_scripts L (script # scripts) f =
     (case tag_string script of
        None \<Rightarrow> palisades_scripts L scripts f
      | Some s \<Rightarrow>
          if s \<noteq> [] \<and> contains s (ustr ''__INITIAL_STATE__'') then
            (case re_search False initial_state_re s of
               None \<Rightarrow> palisades_scripts L scripts f
             | Some json_match \<Rightarrow>
                 (case group json_match 1 of
                    None \<Rightarrow> Inl (type_error ''the JSON object must be str, bytes or bytearray, not NoneType'')
                  | Some g \<Rightarrow>
                      (case json_of L g of
                         Inr data \<Rightarrow> palisades_scripts L scripts (palisades_parse_mtnfeed_json L data f)
                       | Inl e \<Rightarrow>
                           if catches JSONDecodeError (exn_cls e) then palisades_scripts L scripts f
                           else Inl e)))
          else palisades_scripts L scripts f)"

text \<open>The snow patterns, on the collapsed page text with \<open>re.IGNORECASE\<close>:
  \<^verbatim>\<open>(\d+)"\s*-\s*(?:(\d+)|--)".*?New\s*Snow\<close>, \<^verbatim>\<open>Base.*?(\d{2,3})"\<close> and
  \<^verbatim>\<open>(?:Season\s*Total|YTD|Season).*?(\d{2,3})"\<close>.\<close>

definition digits_2_3 :: re where
  "digits_2_3 = cats [Set [Digit], Set [Digit], Opt (Set [Digit])]"

definition palisades_new_snow_re :: re where
  "palisades_new_snow_re =
     cats [Grp 1 digits, dquote, ws0, lit ''-'', ws0, Alt (Grp 2 digits) (lit ''--''), dquote,
           LazyStar Dot, lit ''New'', ws0, lit ''Snow'']"

definition palisades_base_re :: re where
  "palisades_base_re = cats [lit ''Base'', LazyStar Dot, Grp 1 digits_2_3, dquote]"

definition palisades_season_re :: re where
  "palisades_season_re =
     cats [alts [cats [lit ''Season'', ws0, lit ''Total''], lit ''YTD'', lit ''Season''],
           LazyStar Dot, Grp 1 digits_2_3, dquote]"

text \<open>The open status of Palisades, Homewood, Boreal and Tahoe Donner, after their tests of
  the page text: the lift count, else the trail count, else unknown.\<close>

definition flag_from_counts :: "Operations \<Rightarrow> (bool option) py" where
  "flag_from_counts o1 =
     (if is_not_None (lifts_open o1) then py_bind (py_gt0 (lifts_open o1)) (\<lambda>b. Inr (Some b))
      else if is_not_None (trails_open o1) then py_bind (py_gt0 (trails_open o1)) (\<lambda>b. Inr (Some b))
      else Inr None)"

definition palisades_body :: "pylib \<Rightarrow> pystr \<Rightarrow> ParseResult py" where
  "palisades_body L html =
     py_bind (soup_of L html) (\<lambda>soup.
     py_bind (counts2 (re_search True (widget_re ''Lifts'') html)) (\<lambda>lift_match.
     py_bind (counts2 (re_search True (widget_re ''Trails'') html)) (\<lambda>trail_match.
     let ops1 = with_trails trail_match (with_lifts lift_match Operations0);
         text_a = collapse_ws (get_text (ustr '' '') soup)
     in
     py_bind (if lifts_open ops1 = PNone
              then py_bind (counts2 (first_match True palisades_lift_res text_a)) (\<lambda>lifts. Inr (with_lifts lifts ops1))
              else Inr ops1) (\<lambda>ops2.
     let text_b = collapse_ws (if lifts_open ops1 = PNone then text_a else get_text (ustr '' '') soup) in
     py_bind (if trails_open ops2 = PNone
              then py_bind (counts2 (first_match True palisades_trail_res text_b)) (\<lambda>trails. Inr (with_trails trails ops2))
              else Inr ops2) (\<lambda>ops3.
     let text = collapse_ws (get_text (ustr '' '') soup) in
     py_bind (case re_search True palisades_new_snow_re text of
                None \<Rightarrow> Inr (None, None)
              | Some m \<Rightarrow>
                  py_bind (group_float m 1) (\<lambda>a.
                  case group m 2 of
                    None \<Rightarrow> Inr (Some a, None)
                  | Some g2 \<Rightarrow> if g2 = [] then Inr (Some a, None) else Inr (Some a, Some (float_dec g2)))) (\<lambda>new_snow.
     py_bind (float1 (re_search True palisades_base_re text)) (\<lambda>base.
     py_bind (float1 (re_search True palisades_season_re text)) (\<lambda>season.
     let snow1 = Snow0\<lparr>new_snow_24h_in := fst new_snow, new_snow_48h_in := snd new_snow,
                        base_depth_in := base, season_total_in := season\<rparr>
     in
     py_bind (palisades_scripts L (find_all_names [ustr ''script''] soup) (ops3, snow1)) (\<lambda>f.
     py_bind (flag_from_counts (fst f)) (\<lambda>flag.
     let ops4 = (fst f)\<lparr>open_flag := flag\<rparr>;
         result = ParseResult0\<lparr>pr_ops := ops4, pr_snow := snd f\<rparr>
     in
     if is_not_None (lifts_open ops4) \<or> is_not_None (trails_open ops4)
     then Inr (result\<lparr>success := True\<rparr>)
     else Inr (result\<lparr>error := Some (ustr ''Could not extract lift/trail data from rendered page'')\<rparr>)))))))))))"

definition palisades_parse :: "pylib \<Rightarrow> pystr \<Rightarrow> ParseResult py" where
  "palisades_parse L html = parse_guard (palisades_body L html)"

section \<open>\<open>adapters/boreal.py\<close>, \<open>adapters/homewood.py\<close> and \<open>adapters/sierra_at_tahoe.py\<close>\<close>

text \<open>
  Boreal. A count pattern may have one group only: \<open>ops.lifts_open = int(match.group(1))\<close>, and
  \<open>if match.lastindex >= 2: ops.lifts_total = int(match.group(2))\<close>. The patterns, all with
  \<open>re.IGNORECASE\<close> on the collapsed page text:
  \<^verbatim>\<open>(\d+)\s*/\s*(\d+)\s*lifts?\<close>, \<^verbatim>\<open>lifts?\s*(?:open)?[:\s]*(\d+)\s*(?:of|/)\s*(\d+)\<close>,
  \<^verbatim>\<open>(\d+)\s*lifts?\s*open\<close>;
  \<^verbatim>\<open>(\d+)\s*/\s*(\d+)\s*(?:trails?|runs?|terrain)\<close>,
  \<^verbatim>\<open>(?:trails?|runs?|terrain)\s*(?:open)?[:\s]*(\d+)\s*(?:of|/)\s*(\d+)\<close>,
  \<^verbatim>\<open>(\d+)\s*(?:trails?|runs?)\s*open\<close>;
  \<^verbatim>\<open>(?:24\s*(?:hr|hour)|new\s*snow|overnight|last\s*24)[:\s]*(\d+(?:\.\d+)?)\s*(?:in|\")\<close>,
  \<^verbatim>\<open>(\d+(?:\.\d+)?)\s*(?:in|\")?\s*(?:new|fresh)\<close>;
  \<^verbatim>\<open>(?:48\s*(?:hr|hour)|last\s*48)[:\s]*(\d+(?:\.\d+)?)\s*(?:in|\")\<close>;
  \<^verbatim>\<open>(?:base|mid\s*mtn|summit)[:\s]*(\d+(?:\.\d+)?)\s*(?:in|\")\<close>,
  \<^verbatim>\<open>snow\s*(?:depth|base)[:\s]*(\d+(?:\.\d+)?)\<close>;
  \<^verbatim>\<open>(?:season|ytd|year)[:\s]*(\d+(?:\.\d+)?)\s*(?:in|\")\<close>.
\<close>

definition count_and_total :: "rematch option \<Rightarrow> (pyval \<times> pyval) option py" where
  "count_and_total mo =
     (case mo of
        None \<Rightarrow> Inr None
      | Some m \<Rightarrow>
          py_bind (group_int m 1) (\<lambda>a.
          case lastindex m of
            None \<Rightarrow> Inl (type_error ''>= not supported between instances of NoneType and int'')
          | Some li \<Rightarrow>
              if 2 \<le> li then py_bind (group_int m 2) (\<lambda>b. Inr (Some (PInt a, PInt b)))
              else Inr (Some (PInt a, PNone))))"

definition in_or_quote :: re where
  "in_or_quote = Alt (lit ''in'') dquote"

definition number_in :: re where
  "number_in = cats [colon_ws, Grp 1 decimal, ws0, in_or_quote]"

definition trails_runs_terrain :: re where
  "trails_runs_terrain = alts [plural ''trail'', plural ''run'', lit ''terrain'']"

definition boreal_lift_res :: "re list" where
  "boreal_lift_res =
     [cats [slash_pair, ws0, plural ''lift''],
      cats [plural ''lift'', ws0, Opt (lit ''open''), colon_ws, of_pair],
      cats [Grp 1 digits, ws0, plural ''lift'', ws0, lit ''open'']]"

definition boreal_trail_res :: "re list" where
  "boreal_trail_res =
     [cats [slash_pair, ws0, trails_runs_terrain],
      cats [trails_runs_terrain, ws0, Opt (lit ''open''), colon_ws, of_pair],
      cats [Grp 1 digits, ws0, trails_or_runs, ws0, lit ''open'']]"

definition boreal_new_snow_res :: "re list" where
  "boreal_new_snow_res =
     [cats [alts [cats [lit ''24'', ws0, hr_or_hour], cats [lit ''new'', ws0, lit ''snow''],
                  lit ''overnight'', cats [lit ''last'', ws0, lit ''24'']], number_in],
      cats [Grp 1 decimal, ws0, Opt in_or_quote, ws0, Alt (lit ''new'') (lit ''fresh'')]]"

definition boreal_base_res :: "re list" where
  "boreal_base_res =
     [cats [alts [lit ''base'', cats [lit ''mid'', ws0, lit ''mtn''], lit ''summit''], number_in],
      cats [lit ''snow'', ws0, Alt (lit ''depth'') (lit ''base''), colon_ws, Grp 1 decimal]]"

text \<open>Storing a count match: the total is assigned only when the match has it.\<close>

definition with_lift_count :: "(pyval \<times> pyval) option \<Rightarrow> Operations \<Rightarrow> Operations" where
  "with_lift_count lifts o1 =
     (case lifts of
        None \<Rightarrow> o1
      | Some (a, b) \<Rightarrow> if b = PNone then o1\<lparr>lifts_open := a\<rparr> else o1\<lparr>lifts_open := a, lifts_total := b\<rparr>)"

definition with_trail_count :: "(pyval \<times> pyval) option \<Rightarrow> Operations \<Rightarrow> Operations" where
  "with_trail_count trails o1 =
     (case trails of
        None \<Rightarrow> o1
      | Some (a, b) \<Rightarrow> if b = PNone then o1\<lparr>trails_open := a\<rparr> else o1\<lparr>trails_open := a, trails_total := b\<rparr>)"

text \<open>The last statements of the Boreal and Tahoe Donner adapters: success needs a lift
  count, a trail count or a base depth.\<close>

definition finish_rendered :: "Operations \<Rightarrow> Snow \<Rightarrow> ParseResult" where
  "finish_rendered o1 s1 =
     (let result = ParseResult0\<lparr>pr_ops := o1, pr_snow := s1\<rparr> in
      if is_not_None (lifts_open o1) \<or> is_not_None (trails_open o1) \<or> base_depth_in s1 \<noteq> None
      then result\<lparr>success := True\<rparr>
      else result\<lparr>error := Some (ustr ''Could not extract conditions data from rendered page'')\<rparr>)"

definition boreal_body :: "pylib \<Rightarrow> pystr \<Rightarrow> ParseResult py" where
  "boreal_body L html =
     py_bind (soup_of L html) (\<lambda>soup.
     let text = collapse_ws (get_text (ustr '' '') soup) in
     py_bind (count_and_total (first_match True boreal_lift_res text)) (\<lambda>lifts.
     py_bind (count_and_total (first_match True boreal_trail_res text)) (\<lambda>trails.
     let ops1 = with_trail_count trails (with_lift_count lifts Operations0) in
     py_bind (float1 (first_match True boreal_new_snow_res text)) (\<lambda>s24.
     py_bind (float1 (re_search True
                (cats [Alt (cats [lit ''48'', ws0, hr_or_hour]) (cats [lit ''last'', ws0, lit ''48'']), number_in])
                text)) (\<lambda>s48.
     py_bind (float1 (first_match True boreal_base_res text)) (\<lambda>base.
     py_bind (float1 (re_search True
                (cats [alts [lit ''season'', lit ''ytd'', lit ''year''], number_in]) text)) (\<lambda>season.
     let snow1 = Snow0\<lparr>new_snow_24h_in := s24, new_snow_48h_in := s48, base_depth_in := base,
                        season_total_in := season\<rparr>
     in
     py_bind (if contains (lower text) (ustr ''closed for season'') \<or> contains (lower text) (ustr ''not operating'')
              then Inr (Some False)
              else flag_from_counts ops1) (\<lambda>flag.
     Inr (finish_rendered (ops1\<lparr>open_flag := flag\<rparr>) snow1)))))))))"

definition boreal_parse :: "pylib \<Rightarrow> pystr \<Rightarrow> ParseResult py" where
  "boreal_parse L html = parse_guard (boreal_body L html)"

text \<open>
  Homewood: \<^verbatim>\<open>Open\s+Lifts[^0-9]*(\d+)\s*/\s*(\d+)\<close>, \<^verbatim>\<open>Open\s+Runs[^0-9]*(\d+)\s*/\s*(\d+)\<close>,
  \<^verbatim>\<open>(?:Base|Summit)[:\s]*(\d+(?:\.\d+)?)\s*(?:in|\")\<close>,
  \<^verbatim>\<open>Season\s*(?:Total)?[:\s]*(\d+(?:\.\d+)?)\s*(?:in|\")\<close>,
  \<^verbatim>\<open>(?:24\s*(?:hr|hour)|overnight)[:\s]*(\d+(?:\.\d+)?)\s*(?:in|\")\<close>.
\<close>

definition homewood_count_re :: "string \<Rightarrow> re" where
  "homewood_count_re what = cats [lit ''Open'', ws1, lit what, Star (NSet [Rng 48 57]), slash_pair]"

definition homewood_body :: "pylib \<Rightarrow> pystr \<Rightarrow> ParseResult py" where
  "homewood_body L html =
     py_bind (soup_of L html) (\<lambda>soup.
     let text = collapse_ws (get_text (ustr '' '') soup) in
     py_bind (counts2 (re_search True (homewood_count_re ''Lifts'') text)) (\<lambda>lifts.
     py_bind (counts2 (re_search True (homewood_count_re ''Runs'') text)) (\<lambda>trails.
     let ops1 = with_trails trails (with_lifts lifts Operations0) in
     py_bind (float1 (re_search True (cats [Alt (lit ''Base'') (lit ''Summit''), number_in]) text)) (\<lambda>base.
     py_bind (float1 (re_search True (cats [lit ''Season'', ws0, Opt (lit ''Total''), number_in]) text)) (\<lambda>season.
     py_bind (float1 (re_search True
                (cats [Alt (cats [lit ''24'', ws0, hr_or_hour]) (lit ''overnight''), number_in]) text)) (\<lambda>s24.
     let snow1 = Snow0\<lparr>base_depth_in := base, season_total_in := season, new_snow_24h_in := s24\<rparr> in
     py_bind (flag_from_counts ops1) (\<lambda>flag.
     Inr (ParseResult0\<lparr>pr_ops := ops1\<lparr>open_flag := flag\<rparr>, pr_snow := snow1, success := True\<rparr>))))))))"

definition homewood_parse :: "pylib \<Rightarrow> pystr \<Rightarrow> ParseResult py" where
  "homewood_parse L html = parse_guard (homewood_body L html)"

text \<open>
  Sierra-at-Tahoe, on the page text as it is:
  \<^verbatim>\<open>(\d+)\s*/\s*(\d+)\s*lifts?\s*open|lifts?\s*open[:\s]*(\d+)\s*/\s*(\d+)\<close> and the same for
  \<open>runs?\<close>: groups 1 and 2 are read when group 1 is set and not empty, groups 3 and 4
  otherwise;
  \<^verbatim>\<open>24[- ]?hour[:\s]*(\d+(?:\.\d+)?)[\"']?\s*(?:in|inches?)?\<close>,
  \<^verbatim>\<open>(\d+(?:\.\d+)?)[\"']\s*(?:in\s+)?24[- ]?hour\<close>, \<^verbatim>\<open>last\s*24\s*hours?[:\s]*(\d+(?:\.\d+)?)\<close>;
  \<^verbatim>\<open>base\s*depth[:\s]*(\d+(?:\.\d+)?)\<close>, \<^verbatim>\<open>(\d+)[\"']\s*\(summit\)\<close>, \<^verbatim>\<open>base[:\s]*(\d+)[\"']\<close>;
  \<^verbatim>\<open>ytd[:\s]*(\d+)|season\s*total[:\s]*(\d+)\<close>.
\<close>

definition sierra_count_re :: "string \<Rightarrow> re" where
  "sierra_count_re what =
     Alt (cats [slash_pair, ws0, plural what, ws0, lit ''open''])
         (cats [plural what, ws0, lit ''open'', colon_ws, Grp 3 digits, ws0, lit ''/'', ws0, Grp 4 digits])"

definition sierra_counts :: "rematch option \<Rightarrow> (pyval \<times> pyval) option py" where
  "sierra_counts mo =
     (case mo of
        None \<Rightarrow> Inr None
      | Some m \<Rightarrow>
          if (case group m 1 of None \<Rightarrow> False | Some g \<Rightarrow> g \<noteq> [])
          then py_bind (int_pair m 1 2) (\<lambda>(a, b). Inr (Some (PInt a, PInt b)))
          else py_bind (int_pair m 3 4) (\<lambda>(a, b). Inr (Some (PInt a, PInt b))))"

definition quote_mark :: re where
  "quote_mark = Set [Ch 34, Ch 39]"

definition hour24 :: re where
  "hour24 = cats [lit ''24'', Opt (Set [Ch 45, Ch 32]), lit ''hour'']"

definition sierra_snow_24_res :: "re list" where
  "sierra_snow_24_res =
     [cats [hour24, colon_ws, Grp 1 decimal, Opt quote_mark, ws0, Opt inch_word],
      cats [Grp 1 decimal, quote_mark, ws0, Opt (Cat (lit ''in'') ws1), hour24],
      cats [lit ''last'', ws0, lit ''24'', ws0, plural ''hour'', colon_ws, Grp 1 decimal]]"

definition sierra_base_res :: "re list" where
  "sierra_base_res =
     [cats [lit ''base'', ws0, lit ''depth'', colon_ws, Grp 1 decimal],
      cats [Grp 1 digits, quote_mark, ws0, lit ''(summit)''],
      cats [lit ''base'', colon_ws, Grp 1 digits, quote_mark]]"

definition sierra_ytd_re :: re where
  "sierra_ytd_re =
     Alt (cats [lit ''ytd'', colon_ws, Grp 1 digits])
         (cats [lit ''season'', ws0, lit ''total'', colon_ws, Grp 2 digits])"

definition sierra_ytd :: "rematch option \<Rightarrow> (pyfloat option) py" where
  "sierra_ytd mo =
     (case mo of
        None \<Rightarrow> Inr None
      | Some m \<Rightarrow>
          (case (case group m 1 of None \<Rightarrow> group m 2 | Some g \<Rightarrow> if g = [] then group m 2 else Some g) of
             None \<Rightarrow> Inl (Exn TypeError (ustr ''float() argument must be a string or a real number, not NoneType''))
           | Some val \<Rightarrow> Inr (Some (float_dec val))))"

definition sierra_body :: "pylib \<Rightarrow> pystr \<Rightarrow> ParseResult py" where
  "sierra_body L html =
     py_bind (soup_of L html) (\<lambda>soup.
     let text = get_text (ustr '' '') soup in
     py_bind (sierra_counts (re_search True (sierra_count_re ''lift'') text)) (\<lambda>lifts.
     py_bind (sierra_counts (re_search True (sierra_count_re ''run'') text)) (\<lambda>trails.
     let ops1 = with_trails trails (with_lifts lifts Operations0) in
     py_bind (float1 (first_match True sierra_snow_24_res text)) (\<lambda>s24.
     py_bind (float1 (first_match True sierra_base_res text)) (\<lambda>base.
     py_bind (sierra_ytd (re_search True sierra_ytd_re text)) (\<lambda>season.
     let snow1 = Snow0\<lparr>new_snow_24h_in := s24, base_depth_in := base, season_total_in := season\<rparr> in
     py_bind (set_and_gt0 (lifts_open ops1)) (\<lambda>flag.
     Inr (ParseResult0\<lparr>pr_ops := ops1\<lparr>open_flag := Some flag\<rparr>, pr_snow := snow1, success := True\<rparr>))))))))"

definition sierra_parse :: "pylib \<Rightarrow> pystr \<Rightarrow> ParseResult py" where
  "sierra_parse L html = parse_guard (sierra_body L html)"

section \<open>\<open>adapters/sugar_bowl.py\<close> and \<open>adapters/tahoe_donner.py\<close>\<close>

text \<open>
  Sugar Bowl's \<open>_count_lift_statuses\<close>: for each known lift, the pattern is its name
  (escaped), then \<^verbatim>\<open>[^\n]*\n[^\n]*(Open|Scheduled|Closed)\<close>, searched with
  \<open>re.IGNORECASE\<close> in the page text joined by newlines. Open, scheduled and closed lifts are
  three separate counts. (When no lift is found the source goes on to compute two local
  numbers that it never uses; they are left out.)
\<close>

definition sugar_bowl_lift_names :: "pystr list" where
  "sugar_bowl_lift_names =
     [ustr ''Mt. Judah Express'', ustr ''Jerome Hill Express'', ustr ''Mt. Lincoln Express'',
      ustr ''Christmas Tree Express'', ustr ''Mt. Disney Express'', ustr ''Nob Hill'',
      ustr ''White Pine'', ustr ''Summit Chair'', ustr ''Gondola'', ustr ''Flume Carpet'',
      ustr ''Crow'' @ [39] @ ustr ''s Peak'']"

definition sugar_bowl_status_re :: "pystr \<Rightarrow> re" where
  "sugar_bowl_status_re lift_name =
     cats [Lit lift_name, Star (NSet [Ch 10]), Set [Ch 10], Star (NSet [Ch 10]),
           Grp 1 (alts [lit ''Open'', lit ''Scheduled'', lit ''Closed''])]"

fun sugar_bowl_count_loop :: "pystr list \<Rightarrow> pystr \<Rightarrow> counts \<Rightarrow> counts" where
  "sugar_bowl_count_loop [] text c = c"
| "sugar_bowl_count_loop (lift_name # names) text c =
     (case re_search True (sugar_bowl_status_re lift_name) text of
        None \<Rightarrow> sugar_bowl_count_loop names text c
      | Some m \<Rightarrow>
          (let status = lower (case group m 1 of None \<Rightarrow> [] | Some g \<Rightarrow> g);
               c1 = c\<lparr>c_total := c_total c + 1\<rparr>
           in
           sugar_bowl_count_loop names text
             (if status = ustr ''open'' then c1\<lparr>c_open := c_open c1 + 1\<rparr>
              else if status = ustr ''scheduled'' then c1\<lparr>c_scheduled := c_scheduled c1 + 1\<rparr>
              else c1\<lparr>c_closed := c_closed c1 + 1\<rparr>)))"

definition sugar_bowl_count_lift_statuses :: "node \<Rightarrow> counts" where
  "sugar_bowl_count_lift_statuses soup =
     sugar_bowl_count_loop sugar_bowl_lift_names (get_text [10] soup) counts0"

text \<open>
  The other patterns of Sugar Bowl, with \<open>re.IGNORECASE\<close> on the collapsed page text:
  \<^verbatim>\<open>(\d+)\s*/\s*(\d+)\s*Lifts?\s*Open\<close>, \<^verbatim>\<open>(\d+)\s*/\s*(\d+)\s*Trails?\s*Open\<close>;
  \<^verbatim>\<open>(\d+(?:\.\d+)?)\s*[\"\u2033]\s*24\s*[Hh]r\<close>, \<^verbatim>\<open>24\s*[Hh]r\s*(?:Snowfall)?[:\s]*(\d+(?:\.\d+)?)\<close>;
  \<^verbatim>\<open>(\d+(?:\.\d+)?)\s*[\"\u2033]\s*(?:Year\s*to\s*Date|YTD)\<close>,
  \<^verbatim>\<open>(?:Year\s*to\s*Date|YTD)[:\s]*(\d+(?:\.\d+)?)\<close>;
  \<^verbatim>\<open>(\d+(?:\.\d+)?)\s*[\"\u2033]\s*7\s*[Dd]ay\<close>;
  \<^verbatim>\<open>(?:Summit|Base)[:\s]*(\d+(?:\.\d+)?)\s*[\"\u2033]\<close>,
  \<^verbatim>\<open>(\d+(?:\.\d+)?)\s*[\"\u2033]\s*(?:at\s+)?(?:Summit|Base)\<close>.
\<close>

definition number_mark :: re where
  "number_mark = cats [Grp 1 decimal, ws0, inch_mark, ws0]"

definition hr24 :: re where
  "hr24 = cats [lit ''24'', ws0, Set [Ch 72, Ch 104], lit ''r'']"

definition year_to_date :: re where
  "year_to_date = Alt (cats [lit ''Year'', ws0, lit ''to'', ws0, lit ''Date'']) (lit ''YTD'')"

definition summit_or_base :: re where
  "summit_or_base = Alt (lit ''Summit'') (lit ''Base'')"

definition sugar_bowl_open_flag :: "pystr \<Rightarrow> Operations \<Rightarrow> (bool option) py" where
  "sugar_bowl_open_flag text o1 =
     py_bind (py_add (py_or0 (lifts_open o1)) (py_or0 (lifts_scheduled o1))) (\<lambda>lifts_active.
     if contains (lower text) (ustr ''mountain status open'') then Inr (Some True)
     else
       py_bind (py_gt0 lifts_active) (\<lambda>la.
       if la then Inr (Some True)
       else if is_not_None (lifts_open o1) \<or> is_not_None (lifts_scheduled o1) then Inr (Some False)
       else Inr None))"

definition sugar_bowl_body :: "pylib \<Rightarrow> pystr \<Rightarrow> ParseResult py" where
  "sugar_bowl_body L html =
     py_bind (soup_of L html) (\<lambda>soup.
     let text = collapse_ws (get_text (ustr '' '') soup);
         lift_counts = sugar_bowl_count_lift_statuses soup
     in
     py_bind (if 0 < c_total lift_counts
              then Inr (Operations0\<lparr>lifts_open := PInt (c_open lift_counts),
                                     lifts_scheduled := PInt (c_scheduled lift_counts),
                                     lifts_total := PInt (c_total lift_counts)\<rparr>)
              else py_bind (counts2 (re_search True
                              (cats [slash_pair, ws0, plural ''Lift'', ws0, lit ''Open'']) text)) (\<lambda>lifts.
                   Inr (with_lifts lifts Operations0))) (\<lambda>ops1.
     py_bind (counts2 (re_search True (cats [slash_pair, ws0, plural ''Trail'', ws0, lit ''Open'']) text)) (\<lambda>trails.
     let ops2 = with_trails trails ops1 in
     py_bind (float1 (first_match True
                [cats [number_mark, hr24],
                 cats [hr24, ws0, Opt (lit ''Snowfall''), colon_ws, Grp 1 decimal]] text)) (\<lambda>s24.
     py_bind (float1 (first_match True
                [cats [number_mark, year_to_date],
                 cats [year_to_date, colon_ws, Grp 1 decimal]] text)) (\<lambda>season.
     py_bind (float1 (re_search True
                (cats [number_mark, lit ''7'', ws0, Set [Ch 68, Ch 100], lit ''ay'']) text)) (\<lambda>day7.
     py_bind (float1 (first_match True
                [cats [summit_or_base, colon_ws, Grp 1 decimal, ws0, inch_mark],
                 cats [number_mark, Opt (Cat (lit ''at'') ws1), summit_or_base]] text)) (\<lambda>base.
     let snow1 = Snow0\<lparr>new_snow_24h_in := s24, season_total_in := season, new_snow_48h_in := day7,
                        base_depth_in := base\<rparr>
     in
     py_bind (sugar_bowl_open_flag text ops2) (\<lambda>flag.
     Inr (ParseResult0\<lparr>pr_ops := ops2\<lparr>open_flag := flag\<rparr>, pr_snow := snow1, success := True\<rparr>)))))))))"

definition sugar_bowl_parse :: "pylib \<Rightarrow> pystr \<Rightarrow> ParseResult py" where
  "sugar_bowl_parse L html = parse_guard (sugar_bowl_body L html)"

text \<open>
  Tahoe Donner. The rows of every table are read twice, for lifts and for trails. The text of
  a row is the stripped, lower-case text of its cells, joined by spaces.
\<close>

definition row_text_of :: "node \<Rightarrow> pystr" where
  "row_text_of row =
     join (ustr '' '') (map (\<lambda>c. lower (get_text_strip c)) (find_all_names [ustr ''td'', ustr ''th''] row))"

definition table_rows :: "node \<Rightarrow> node list" where
  "table_rows soup =
     concat (map (find_all_names [ustr ''tr'']) (find_all_names [ustr ''table''] soup))"

fun donner_lift_loop :: "node list \<Rightarrow> int \<times> int \<Rightarrow> int \<times> int" where
  "donner_lift_loop [] (n_open, n_total) = (n_open, n_total)"
| "donner_lift_loop (row # rows) (n_open, n_total) =
     (let row_text = row_text_of row in
      if list_ex (contains row_text) [ustr ''chair'', ustr ''lift'', ustr ''carpet'']
      then donner_lift_loop rows
             (if contains row_text (ustr ''open'') \<or> contains row_text (ustr ''yes'') then n_open + 1 else n_open,
              n_total + 1)
      else donner_lift_loop rows (n_open, n_total))"

fun donner_trail_loop :: "node list \<Rightarrow> int \<times> int \<Rightarrow> int \<times> int" where
  "donner_trail_loop [] (n_open, n_total) = (n_open, n_total)"
| "donner_trail_loop (row # rows) (n_open, n_total) =
     (let row_text = row_text_of row in
      if list_ex (contains row_text)
           [ustr ''green'', ustr ''blue'', ustr ''black'', ustr ''diamond'', ustr ''run'', ustr ''trail'']
      then
        (if contains row_text (ustr ''name'') \<and> contains row_text (ustr ''status'')
         then donner_trail_loop rows (n_open, n_total)
         else donner_trail_loop rows
                (if contains row_text (ustr ''open'') \<or> contains row_text (ustr ''groomed'') then n_open + 1 else n_open,
                 n_total + 1))
      else donner_trail_loop rows (n_open, n_total))"

text \<open>
  The fallback patterns of Tahoe Donner, with \<open>re.IGNORECASE\<close> on the collapsed page text:
  \<^verbatim>\<open>(\d+)\s*(?:of|/)\s*(\d+)\s*lifts?\s*(?:open|running)\<close>,
  \<^verbatim>\<open>lifts?\s*(?:open)?[:\s]*(\d+)\s*(?:of|/)\s*(\d+)\<close>, \<^verbatim>\<open>(\d+)\s*/\s*(\d+)\s*lifts?\<close>;
  \<^verbatim>\<open>(\d+)\s*(?:of|/)\s*(\d+)\s*(?:trails?|runs?)\s*(?:open|groomed)\<close>,
  \<^verbatim>\<open>(?:trails?|runs?)\s*(?:open)?[:\s]*(\d+)\s*(?:of|/)\s*(\d+)\<close>;
  \<^verbatim>\<open>(?:24\s*(?:hr|hour)|new\s*snow|overnight|fresh)[:\s]*(\d+(?:\.\d+)?)\s*(?:in|\")\<close>;
  \<^verbatim>\<open>(?:base|snow\s*depth)[:\s]*(\d+(?:\.\d+)?)\s*(?:in|\")\<close>;
  \<^verbatim>\<open>(?:season|ytd)[:\s]*(\d+(?:\.\d+)?)\s*(?:in|\")\<close>.
\<close>

definition donner_lift_res :: "re list" where
  "donner_lift_res =
     [cats [of_pair, ws0, plural ''lift'', ws0, Alt (lit ''open'') (lit ''running'')],
      cats [plural ''lift'', ws0, Opt (lit ''open''), colon_ws, of_pair],
      cats [slash_pair, ws0, plural ''lift'']]"

definition donner_trail_res :: "re list" where
  "donner_trail_res =
     [cats [of_pair, ws0, trails_or_runs, ws0, Alt (lit ''open'') (lit ''groomed'')],
      cats [trails_or_runs, ws0, Opt (lit ''open''), colon_ws, of_pair]]"

definition donner_body :: "pylib \<Rightarrow> pystr \<Rightarrow> ParseResult py" where
  "donner_body L html =
     py_bind (soup_of L html) (\<lambda>soup.
     let text = collapse_ws (get_text (ustr '' '') soup);
         lifts = donner_lift_loop (table_rows soup) (0, 0);
         ops1 = (if 0 < snd lifts
                 then Operations0\<lparr>lifts_open := PInt (fst lifts), lifts_total := PInt (snd lifts)\<rparr>
                 else Operations0)
     in
     py_bind (if lifts_open ops1 = PNone
              then py_bind (counts2 (first_match True donner_lift_res text)) (\<lambda>m. Inr (with_lifts m ops1))
              else Inr ops1) (\<lambda>ops2.
     let trails = donner_trail_loop (table_rows soup) (0, 0);
         ops3 = (if 0 < snd trails
                 then ops2\<lparr>trails_open := PInt (fst trails), trails_total := PInt (snd trails)\<rparr>
                 else ops2)
     in
     py_bind (if trails_open ops3 = PNone
              then py_bind (counts2 (first_match True donner_trail_res text)) (\<lambda>m. Inr (with_trails m ops3))
              else Inr ops3) (\<lambda>ops4.
     py_bind (float1 (re_search True
                (cats [alts [cats [lit ''24'', ws0, hr_or_hour], cats [lit ''new'', ws0, lit ''snow''],
                             lit ''overnight'', lit ''fresh''], number_in]) text)) (\<lambda>s24.
     py_bind (float1 (re_search True
                (cats [Alt (lit ''base'') (cats [lit ''snow'', ws0, lit ''depth'']), number_in]) text)) (\<lambda>base.
     py_bind (float1 (re_search True (cats [Alt (lit ''season'') (lit ''ytd''), number_in]) text)) (\<lambda>season.
     let snow1 = Snow0\<lparr>new_snow_24h_in := s24, base_depth_in := base, season_total_in := season\<rparr> in
     py_bind (if contains (lower text) (ustr ''closed'') \<and> contains (lower text) (ustr ''season'')
              then Inr (Some False)
              else flag_from_counts ops4) (\<lambda>flag.
     Inr (finish_rendered (ops4\<lparr>open_flag := flag\<rparr>) snow1))))))))"

definition donner_parse :: "pylib \<Rightarrow> pystr \<Rightarrow> ParseResult py" where
  "donner_parse L html = parse_guard (donner_body L html)"

section \<open>Dispatch: \<open>get_adapter(kind).parse(html)\<close>\<close>

fun adapter_parse :: "pylib \<Rightarrow> adapter \<Rightarrow> pystr \<Rightarrow> ParseResult py" where
  "adapter_parse L GenericHTMLAdapter html = generic_parse L html"
| "adapter_parse L BorealAdapter html = boreal_parse L html"
| "adapter_parse L DiamondPeakAdapter html = diamond_parse L html"
| "adapter_parse L HomewoodAdapter html = homewood_parse L html"
| "adapter_parse L MtRoseAdapter html = mt_rose_parse L html"
| "adapter_parse L PalisadesAdapter html = palisades_parse L html"
| "adapter_parse L SierraAtTahoeAdapter html = sierra_parse L html"
| "adapter_parse L SugarBowlAdapter html = sugar_bowl_parse L html"
| "adapter_parse L TahoeDonnerAdapter html = donner_parse L html"
| "adapter_parse L VailResortsAdapter html = vail_parse L html"
| "adapter_parse L PlaceholderHeadlessAdapter html = placeholder_parse L html"

text \<open>The statements inside the \<open>try\<close> of each \<open>parse\<close>: what runs before the handler may
  step in. The placeholder has no \<open>try\<close>, its whole \<open>parse\<close> is its body.\<close>

fun adapter_body :: "pylib \<Rightarrow> adapter \<Rightarrow> pystr \<Rightarrow> ParseResult py" where
  "adapter_body L GenericHTMLAdapter html = generic_body L html"
| "adapter_body L BorealAdapter html = boreal_body L html"
| "adapter_body L DiamondPeakAdapter html = diamond_body L html"
| "adapter_body L HomewoodAdapter html = homewood_body L html"
| "adapter_body L MtRoseAdapter html = mt_rose_body L html"
| "adapter_body L PalisadesAdapter html = palisades_body L html"
| "adapter_body L SierraAtTahoeAdapter html = sierra_body L html"
| "adapter_body L SugarBowlAdapter html = sugar_bowl_body L html"
| "adapter_body L TahoeDonnerAdapter html = donner_body L html"
| "adapter_body L VailResortsAdapter html = vail_body L html"
| "adapter_body L PlaceholderHeadlessAdapter html = placeholder_parse L html"

section \<open>\<open>summarize.py\<close>: the blurb of a resort\<close>

text \<open>
  \<open>generate_blurb\<close> formats values into a sentence. The formatting of a value in an f-string
  (\<open>str_of\<close>), of a float with \<open>:.0f\<close> (\<open>format_0f\<close>) and of a time with \<open>strftime\<close> are
  parameters. The counts that the sentence shows are \<open>lifts_available\<close> and
  \<open>trails_available\<close>: open plus scheduled, with \<open>None\<close> read as 0.
\<close>

record fmtlib =
  str_of :: "pyval \<Rightarrow> pystr"
  format_0f :: "pyfloat \<Rightarrow> pystr"
  strftime_minutes :: "datetime \<Rightarrow> pystr"

definition lifts_available :: "Operations \<Rightarrow> pyval py" where
  "lifts_available o1 = py_add (py_or0 (lifts_open o1)) (py_or0 (lifts_scheduled o1))"

definition trails_available :: "Operations \<Rightarrow> pyval py" where
  "trails_available o1 = py_add (py_or0 (trails_open o1)) (py_or0 (trails_scheduled o1))"

text \<open>The parts about lifts and trails: \<open>"{lifts_available}/{ops.lifts_total} lifts"\<close> when
  the lift total is set, \<open>"{trails_available}/{ops.trails_total} trails."\<close> when the trail
  total is set, and otherwise a full stop after the lift part.\<close>

definition blurb_counts :: "fmtlib \<Rightarrow> Operations \<Rightarrow> pyval \<Rightarrow> pyval \<Rightarrow> pystr list" where
  "blurb_counts F o1 la ta =
     (let lift_part = str_of F la @ ustr ''/'' @ str_of F (lifts_total o1) @ ustr '' lifts'' in
      if is_not_None (trails_total o1) then
        (if is_not_None (lifts_total o1) then [lift_part] else []) @
        [str_of F ta @ ustr ''/'' @ str_of F (trails_total o1) @ ustr '' trails.'']
      else if is_not_None (lifts_total o1) then [lift_part @ ustr ''.'']
      else [])"

definition blurb_snow :: "fmtlib \<Rightarrow> Snow \<Rightarrow> pystr list" where
  "blurb_snow F s1 =
     (case new_snow_24h_in s1 of
        Some q \<Rightarrow> [ustr ''New snow (24h): '' @ format_0f F q @ [34] @ ustr ''.'']
      | None \<Rightarrow>
          (case base_depth_in s1 of
             Some q \<Rightarrow> [ustr ''Base: '' @ format_0f F q @ [34] @ ustr ''.'']
           | None \<Rightarrow> []))"

definition blurb_weather :: "fmtlib \<Rightarrow> Weather \<Rightarrow> pyval list" where
  "blurb_weather F wx =
     (let weather_parts =
            (if truthy (short_forecast wx) then [short_forecast wx] else []) @
            (case temp_f wx of None \<Rightarrow> [] | Some q \<Rightarrow> [PStr (format_0f F q @ [176] @ ustr ''F'')]) @
            (case wind_mph wx of None \<Rightarrow> [] | Some q \<Rightarrow> [PStr (ustr ''wind '' @ format_0f F q @ ustr '' mph'')])
      in weather_parts)"

text \<open>\<open>", ".join(weather_parts)\<close> needs strings: a forecast text that is not a string is a
  \<open>TypeError\<close>.\<close>

fun join_strs :: "pyval list \<Rightarrow> (pystr list) py" where
  "join_strs [] = Inr []"
| "join_strs (v # vs) =
     (case v of
        PStr s \<Rightarrow> py_bind (join_strs vs) (\<lambda>rest. Inr (s # rest))
      | _ \<Rightarrow> Inl (type_error ''sequence item: expected str instance''))"

definition generate_blurb :: "fmtlib \<Rightarrow> ResortConditions \<Rightarrow> pystr py" where
  "generate_blurb F resort =
     (if stale resort then
        Inr (ustr ''Latest update unavailable; showing last known conditions from '' @
             strftime_minutes F (fetched_at_utc resort) @ ustr '' UTC.'')
      else
        py_bind (lifts_available (ops resort)) (\<lambda>la.
        py_bind (trails_available (ops resort)) (\<lambda>ta.
        let parts = [name resort @ ustr '':''] @ blurb_counts F (ops resort) la ta @
                    blurb_snow F (snow resort);
            weather_parts = blurb_weather F (weather resort)
        in
        if weather_parts = [] then Inr (join (ustr '' '') parts)
        else
          py_bind (join_strs weather_parts) (\<lambda>ws.
          Inr (join (ustr '' '') (parts @ [ustr ''Forecast: '' @ join (ustr '', '') ws @ ustr ''.'']))))))"

section \<open>Properties of results\<close>

text \<open>\<open>returns P m\<close>: if the computation \<open>m\<close> returns a value, the value satisfies \<open>P\<close>.
  \<open>error_iff_failed\<close> is the invariant of a \<open>ParseResult\<close>: an error text is there exactly
  when \<open>success\<close> is false.\<close>

definition returns :: "('a \<Rightarrow> bool) \<Rightarrow> 'a py \<Rightarrow> bool" where
  "returns P m = (case m of Inl e \<Rightarrow> True | Inr r \<Rightarrow> P r)"

definition error_iff_failed :: "ParseResult \<Rightarrow> bool" where
  "error_iff_failed r = ((error r \<noteq> None) = (\<not> success r))"

section \<open>The open flag, as the adapters derive it\<close>

text \<open>
  \<open>positive v\<close> is \<open>v > 0\<close> for a number. \<open>claimed_open_flag\<close> is the order of the
  specification, written from its words: an explicit phrase of the page decides; else the
  open-lift count, when there is one; else the open-trail count, when there is one; else the
  flag stays unknown. The phrases that an adapter looks for in the lower-case page text are
  \<open>generic_phrase\<close>, \<open>diamond_phrase\<close>, \<open>boreal_phrase\<close> and \<open>donner_phrase\<close>.
  \<open>generic_text\<close> and \<open>flat_text\<close> are the lower-case text of a page, as the generic adapter
  and the adapters that collapse white space compute it.
\<close>

definition positive :: "pyval \<Rightarrow> bool" where
  "positive v = (case num_of v of Some (Inl n) \<Rightarrow> 0 < n | Some (Inr q) \<Rightarrow> 0 < q | None \<Rightarrow> False)"

definition claimed_open_flag :: "bool option \<Rightarrow> pyval \<Rightarrow> pyval \<Rightarrow> bool option" where
  "claimed_open_flag phrase lifts trails =
     (case phrase of
        Some b \<Rightarrow> Some b
      | None \<Rightarrow>
          if lifts \<noteq> PNone then Some (positive lifts)
          else if trails \<noteq> PNone then Some (positive trails)
          else None)"

definition generic_phrase :: "pystr \<Rightarrow> bool option" where
  "generic_phrase t =
     (if contains t (ustr ''resort closed'') \<or> contains t (ustr ''mountain closed'') then Some False
      else if contains t (ustr ''resort open'') \<or> contains t (ustr ''mountain open'') then Some True
      else None)"

definition diamond_phrase :: "pystr \<Rightarrow> bool option" where
  "diamond_phrase t =
     (if contains t (ustr ''mountain closed'') \<or> contains t (ustr ''closed for season'') then Some False
      else if contains t (ustr ''open'') then Some True
      else None)"

definition boreal_phrase :: "pystr \<Rightarrow> bool option" where
  "boreal_phrase t =
     (if contains t (ustr ''closed for season'') \<or> contains t (ustr ''not operating'') then Some False
      else None)"

definition donner_phrase :: "pystr \<Rightarrow> bool option" where
  "donner_phrase t =
     (if contains t (ustr ''closed'') \<and> contains t (ustr ''season'') then Some False else None)"

definition generic_text :: "node \<Rightarrow> pystr" where
  "generic_text soup =
     lower (get_text (ustr '' '') (decompose_all [ustr ''script'', ustr ''style'', ustr ''noscript''] soup))"

definition flat_text :: "node \<Rightarrow> pystr" where
  "flat_text soup = lower (collapse_ws (get_text (ustr '' '') soup))"


text \<open>
  \<open>available a b\<close> is the value of \<open>(a or 0) + (b or 0)\<close>. \<open>open_flag_rule\<close> states, for each
  adapter, how the flag follows from the page text and the counts of the result: through
  \<open>claimed_open_flag\<close> where the adapter keeps the order of the specification, with the parts it
  leaves out replaced by \<open>None\<close>, and directly elsewhere.
\<close>

definition available :: "pyval \<Rightarrow> pyval \<Rightarrow> pyval" where
  "available a b = (case py_add (py_or0 a) (py_or0 b) of Inr v \<Rightarrow> v | Inl e \<Rightarrow> PNone)"

fun open_flag_rule :: "adapter \<Rightarrow> node \<Rightarrow> Operations \<Rightarrow> bool option" where
  "open_flag_rule GenericHTMLAdapter soup o1 =
     claimed_open_flag (generic_phrase (generic_text soup)) (lifts_open o1) PNone"
| "open_flag_rule BorealAdapter soup o1 =
     claimed_open_flag (boreal_phrase (flat_text soup)) (lifts_open o1) (trails_open o1)"
| "open_flag_rule TahoeDonnerAdapter soup o1 =
     claimed_open_flag (donner_phrase (flat_text soup)) (lifts_open o1) (trails_open o1)"
| "open_flag_rule PalisadesAdapter soup o1 = claimed_open_flag None (lifts_open o1) (trails_open o1)"
| "open_flag_rule HomewoodAdapter soup o1 = claimed_open_flag None (lifts_open o1) (trails_open o1)"
| "open_flag_rule DiamondPeakAdapter soup o1 =
     (if lifts_open o1 \<noteq> PNone then Some (positive (lifts_open o1))
      else diamond_phrase (lower (get_text (ustr '' '') soup)))"
| "open_flag_rule MtRoseAdapter soup o1 = Some (lifts_open o1 \<noteq> PNone \<and> positive (lifts_open o1))"
| "open_flag_rule SierraAtTahoeAdapter soup o1 = Some (lifts_open o1 \<noteq> PNone \<and> positive (lifts_open o1))"
| "open_flag_rule VailResortsAdapter soup o1 =
     (if positive (available (lifts_open o1) (lifts_scheduled o1)) \<or>
         positive (available (trails_open o1) (trails_scheduled o1)) then Some True
      else if lifts_open o1 \<noteq> PNone \<or> lifts_scheduled o1 \<noteq> PNone then Some False
      else None)"
| "open_flag_rule SugarBowlAdapter soup o1 =
     (if contains (flat_text soup) (ustr ''mountain status open'') \<or>
         positive (available (lifts_open o1) (lifts_scheduled o1)) then Some True
      else if lifts_open o1 \<noteq> PNone \<or> lifts_scheduled o1 \<noteq> PNone then Some False
      else None)"
| "open_flag_rule PlaceholderHeadlessAdapter soup o1 = None"


section \<open>Concrete runs of the orchestrator\<close>

text \<open>
  \<open>live_fetch\<close> names the fetch that \<open>process_resort\<close> issues for a resort that can be
  fetched: the rendered one for a kind of \<open>HEADLESS_ADAPTERS\<close>, the plain one otherwise.
\<close>

definition live_fetch :: "'w world \<Rightarrow> ResortConfig \<Rightarrow> 'w \<Rightarrow> pystr py \<times> 'w" where
  "live_fetch W cfg w =
     (if requires_headless (kind cfg) then w_fetch_headless W (source_url cfg) w
      else w_fetch W (source_url cfg) w)"

text \<open>
  A small world for concrete runs: whether Playwright is installed, what a fetch returns,
  what the adapter returns and what the store holds are its parameters; the weather service
  has no forecast. Its state counts the reads of the store.
\<close>

definition demo_world ::
  "bool \<Rightarrow> pystr py \<Rightarrow> ParseResult py \<Rightarrow> ResortConditions option \<Rightarrow> nat world" where
  "demo_world playwright page parsed previous =
     \<lparr>HAS_PLAYWRIGHT = playwright,
      utc_now = (\<lambda>w. 1700000000),
      w_fetch = (\<lambda>url w. (page, w)),
      w_fetch_headless = (\<lambda>url w. (page, w)),
      w_parse = (\<lambda>a html. parsed),
      w_load_existing_resort = (\<lambda>sl w. (previous, Suc w)),
      w_fetch_weather = (\<lambda>la lo w. (Inr (Weather0, ustr ''https://api.weather.gov/points/39,-120'', None), w))\<rparr>"

definition demo_config :: "string \<Rightarrow> ResortConfig" where
  "demo_config k =
     \<lparr>cfg_slug = ustr ''demo'', cfg_name = ustr ''Demo'', kind = ustr k,
      source_url = ustr ''https://example.com/conditions'', lat = 39, lon = - 120, enabled = True\<rparr>"

definition demo_previous :: ResortConditions where
  "demo_previous =
     \<lparr>slug = ustr ''demo'', name = ustr ''Demo'', fetched_at_utc = 1699990000, stale = False,
      sources = \<lparr>ops_url = ustr ''https://example.com/conditions'', weather_points_url = None,
                 weather_forecast_url = None\<rparr>,
      ops = Operations0\<lparr>open_flag := Some True, lifts_open := PInt 5, lifts_total := PInt 10\<rparr>,
      snow = Snow0\<lparr>base_depth_in := Some 48\<rparr>,
      weather = Weather0\<rparr>"

definition fetch_error :: exn where
  "fetch_error = Exn FetchError (ustr ''Failed to fetch'')"

section \<open>Transports and concrete states of the fetch layer\<close>









section \<open>Weather documents\<close>










section \<open>Concrete pages\<close>

text \<open>
  \<open>page lines\<close> is the tree of a document whose body holds one \<open>div\<close> per line of text.
  \<open>page_lib t j\<close> is a library whose HTML parser returns the tree \<open>t\<close> and whose
  \<open>json.loads\<close> returns \<open>j\<close>. \<open>terrain_html\<close> is a Vail page whose terrain feed is
  \<^verbatim>\<open>{"Lifts": 5}\<close>: the lifts are a number where a list is expected.
\<close>

definition page :: "pystr list \<Rightarrow> node" where
  "page lines =
     Elem (ustr ''html'') []
       [Elem (ustr ''body'') [] (map (\<lambda>l. Elem (ustr ''div'') [] [Text l]) lines)]"

definition page_lib :: "node \<Rightarrow> pyval \<Rightarrow> pylib" where
  "page_lib t j =
     \<lparr>soup_of = (\<lambda>h. Inr t), str_of_soup = (\<lambda>t. []), json_of = (\<lambda>s. Inr j),
      float_of = (\<lambda>s. Inl (Exn ValueError (ustr ''could not convert string to float'')))\<rparr>"

definition terrain_html :: pystr where
  "terrain_html =
     ustr ''<script>FR.TerrainStatusFeed = {'' @ [34] @ ustr ''Lifts'' @ [34] @ ustr '': 5};</script>''"

definition terrain_lib :: pylib where
  "terrain_lib = page_lib (page []) (PDict [(ustr ''Lifts'', PInt 5)])"

text \<open>Two more pages: one that says the mountain is closed and has a lift count, and one
  with a trail count and new snow but no lift count and no phrase.\<close>

definition closed_page :: node where
  "closed_page = page [ustr ''Mountain Closed'', ustr ''5/10 Lifts Open'']"

definition trails_page :: node where
  "trails_page = page [ustr ''20/50 Trails'', ustr ''6'' @ [34] @ ustr '' in last 24 hours'']"


section \<open>Groups of a match\<close>

text \<open>A group that lies on every path through a pattern is set in every match, so
  \<open>m.group(n)\<close> is a string there and \<open>int\<close> or \<open>float\<close> of it gets no \<open>None\<close>.\<close>

lemma star_loop_groups:
  assumes body: "\<forall>k st x. body k st = Some x \<longrightarrow> (\<exists>st'. k st' = Some x \<and> set (snd st) \<subseteq> set (snd st'))"
      and run: "star_loop body lz fuel k st = Some x"
  shows "\<exists>st'. k st' = Some x \<and> set (snd st) \<subseteq> set (snd st')"
  using run
proof (induction fuel arbitrary: st)
  case Nil
  then show ?case by (intro exI [of _ st]) simp
next
  case (Cons a fuel)
  let ?k = "\<lambda>st'. if length (fst st') < length (fst st) then star_loop body lz fuel k st' else None"
  have again: "\<exists>st'. k st' = Some x \<and> set (snd st) \<subseteq> set (snd st')" if b: "body ?k st = Some x"
  proof -
    obtain st1 where s1: "?k st1 = Some x" and sub: "set (snd st) \<subseteq> set (snd st1)"
      using body b by blast
    have "star_loop body lz fuel k st1 = Some x" using s1 by (simp split: if_splits)
    then obtain st' where "k st' = Some x" "set (snd st1) \<subseteq> set (snd st')"
      using Cons.IH by blast
    then show ?thesis using sub by blast
  qed
  show ?case
  proof (cases "k st = Some x")
    case True
    then show ?thesis by blast
  next
    case False
    then have "body ?k st = Some x"
      using Cons.prems by (auto split: if_splits option.splits)
    then show ?thesis by (rule again)
  qed
qed

lemma rmatch_groups:
  "rmatch ic r k st = Some x \<Longrightarrow>
   \<exists>st'. k st' = Some x \<and> set (snd st) \<subseteq> set (snd st') \<and> must r \<subseteq> fst ` set (snd st')"
proof (induction r arbitrary: k st x)
  case (Cat a b)
  from Cat.prems have "rmatch ic a (rmatch ic b k) st = Some x" by simp
  then obtain st1 where 1: "rmatch ic b k st1 = Some x" "set (snd st) \<subseteq> set (snd st1)"
     "must a \<subseteq> fst ` set (snd st1)"
    using Cat.IH(1) by blast
  then obtain st2 where 2: "k st2 = Some x" "set (snd st1) \<subseteq> set (snd st2)" "must b \<subseteq> fst ` set (snd st2)"
    using Cat.IH(2) by blast
  have "must a \<subseteq> fst ` set (snd st2)" using 1(3) 2(2) by blast
  then show ?case using 1 2 by (intro exI [of _ st2]) auto
next
  case (Alt a b)
  show ?case
  proof (cases "rmatch ic a k st")
    case None
    then have "rmatch ic b k st = Some x" using Alt.prems by simp
    then show ?thesis using Alt.IH(2) by fastforce
  next
    case (Some y)
    then have "rmatch ic a k st = Some x" using Alt.prems by simp
    then show ?thesis using Alt.IH(1) by fastforce
  qed
next
  case (Star a)
  have b: "\<forall>k' st0 y. rmatch ic a k' st0 = Some (y::'a) \<longrightarrow>
             (\<exists>st'. k' st' = Some y \<and> set (snd st0) \<subseteq> set (snd st'))"
    using Star.IH by blast
  have s: "star_loop (rmatch ic a) False (fst st) k st = Some x" using Star.prems by simp
  show ?case using star_loop_groups [OF b s] by simp
next
  case (LazyStar a)
  have b: "\<forall>k' st0 y. rmatch ic a k' st0 = Some (y::'a) \<longrightarrow>
             (\<exists>st'. k' st' = Some y \<and> set (snd st0) \<subseteq> set (snd st'))"
    using LazyStar.IH by blast
  have s: "star_loop (rmatch ic a) True (fst st) k st = Some x" using LazyStar.prems by simp
  show ?case using star_loop_groups [OF b s] by simp
next
  case (Grp n a)
  let ?k = "\<lambda>st'. k (fst st', (n, take (length (fst st) - length (fst st')) (fst st)) # snd st')"
  have "rmatch ic a ?k st = Some x" using Grp.prems by simp
  then obtain st1 where 1: "?k st1 = Some x" "set (snd st) \<subseteq> set (snd st1)" "must a \<subseteq> fst ` set (snd st1)"
    using Grp.IH by blast
  show ?case
    using 1 by (intro exI [of _ "(fst st1, (n, take (length (fst st) - length (fst st1)) (fst st)) # snd st1)"]) auto
qed (fastforce simp: step1_def split: option.splits list.splits if_splits)+

lemma search_from_groups:
  "search_from ic r i s = Some m \<Longrightarrow> must r \<subseteq> fst ` set (snd (snd m))"
proof (induction s arbitrary: i)
  case Nil
  then show ?case
    using rmatch_groups [of ic r Some "([], [])"]
    by (auto simp: match_at_def split: option.splits)
next
  case (Cons c cs)
  show ?case
  proof (cases "match_at ic r i (c # cs)")
    case None
    then show ?thesis using Cons by simp
  next
    case (Some m')
    then have "m' = m" using Cons.prems by simp
    then show ?thesis
      using Some rmatch_groups [of ic r Some "(c # cs, [])"]
      by (auto simp: match_at_def split: option.splits)
  qed
qed

lemma re_search_group:
  "re_search ic r s = Some m \<Longrightarrow> n \<in> must r \<Longrightarrow> \<exists>g. group m n = Some g"
proof -
  assume a: "re_search ic r s = Some m" and n: "n \<in> must r"
  have "must r \<subseteq> fst ` set (snd (snd m))"
    using search_from_groups [of ic r 0 s m] a by (simp add: re_search_def)
  then have "n \<in> fst ` set (snd (snd m))" using n by blast
  then have "map_of (snd (snd m)) n \<noteq> None" by (simp add: map_of_eq_None_iff)
  then show ?thesis by (auto simp: group_def)
qed


lemma first_match_group:
  "first_match ic rs s = Some m \<Longrightarrow> \<forall>r \<in> set rs. n \<in> must r \<Longrightarrow> \<exists>g. group m n = Some g"
proof (induction rs)
  case Nil
  then show ?case by simp
next
  case (Cons r rs)
  show ?case
  proof (cases "re_search ic r s")
    case None
    then show ?thesis using Cons by simp
  next
    case (Some m')
    then have "re_search ic r s = Some m" using Cons.prems(1) by simp
    then show ?thesis using re_search_group [of ic r s m n] Cons.prems(2) by simp
  qed
qed

section \<open>The orchestrator: one record per resort, staleness and fallback\<close>





lemma headless_unavailable_block:
  assumes "requires_headless (kind cfg)" "\<not> HAS_PLAYWRIGHT W"
  shows "conditions_block W cfg w = (Inr (locals0\<lparr>l_stale := True\<rparr>), w)"
  using assms by (simp add: conditions_block_def conditions_try_def fetch_html_def)

lemma headless_unavailable_record:
  assumes "requires_headless (kind cfg)" "\<not> HAS_PLAYWRIGHT W"
  shows "stale (fst (process_one W cfg w)) \<and> ops (fst (process_one W cfg w)) = Operations0
         \<and> snow (fst (process_one W cfg w)) = Snow0"
  using headless_unavailable_block [OF assms, of w]
  by (auto simp: process_one_def process_resort_def stale_entry_def locals0_def Let_def
      split: prod.splits sum.splits)

lemma headless_unavailable_store:
  assumes "requires_headless (kind cfg)" "\<not> HAS_PLAYWRIGHT W"
  shows "process_one (W\<lparr>w_load_existing_resort := other\<rparr>) cfg w = process_one W cfg w"
proof -
  have a: "conditions_block (W\<lparr>w_load_existing_resort := other\<rparr>) cfg w = conditions_block W cfg w"
    using assms by (simp add: conditions_block_def conditions_try_def fetch_html_def)
  show ?thesis
    by (simp add: process_one_def process_resort_def a Let_def split: prod.splits sum.splits)
qed




lemmas demo_simps =
  demo_world_def demo_config_def demo_previous_def fetch_error_def live_fetch_def
  requires_headless_def HEADLESS_ADAPTERS_def ustr_def
  process_one_def process_resort_def conditions_block_def conditions_try_def fetch_html_def
  last_known_good_def locals0_def stale_entry_def Operations0_def Snow0_def Weather0_def
  ParseResult0_def

text \<open>
  Claim C10. For a resort whose kind is in \<open>HEADLESS_ADAPTERS\<close>, when Playwright is not
  installed, the record of the run is stale, its operations and snow facts are the unknown
  defaults, and the last-known-good store is not consulted: whatever \<open>load_existing_resort\<close>
  would return, the record and the state of the world after the resort are the same.
\<close>

theorem headless_unavailable_is_stale_without_fallback:
  assumes "kind cfg \<in> set HEADLESS_ADAPTERS" and "\<not> HAS_PLAYWRIGHT W"
  shows "stale (fst (process_one W cfg w)) \<and>
         ops (fst (process_one W cfg w)) = Operations0 \<and>
         snow (fst (process_one W cfg w)) = Snow0 \<and>
         process_one (W\<lparr>w_load_existing_resort := other\<rparr>) cfg w = process_one W cfg w"
proof -
  have h: "requires_headless (kind cfg)" using assms(1) by (simp add: requires_headless_def)
  show ?thesis
    using headless_unavailable_record [OF h assms(2), of w]
          headless_unavailable_store [OF h assms(2), of other w]
    by simp
qed

theorem headless_unavailable_is_stale_without_fallback_witness:
  "kind (demo_config ''boreal'') \<in> set HEADLESS_ADAPTERS \<and>
   \<not> HAS_PLAYWRIGHT (demo_world False (Inr []) (Inr ParseResult0) (Some demo_previous)) \<and>
   stale (fst (process_one (demo_world False (Inr []) (Inr ParseResult0) (Some demo_previous))
                 (demo_config ''boreal'') 0)) \<and>
   lifts_open (ops (fst (process_one (demo_world False (Inr []) (Inr ParseResult0) (Some demo_previous))
                 (demo_config ''boreal'') 0))) = PNone \<and>
   snd (process_one (demo_world False (Inr []) (Inr ParseResult0) (Some demo_previous))
                 (demo_config ''boreal'') 0) = 0"
proof -
  have h1: "kind (demo_config ''boreal'') \<in> set HEADLESS_ADAPTERS"
    by (simp add: demo_config_def HEADLESS_ADAPTERS_def)
  have h2: "\<not> HAS_PLAYWRIGHT (demo_world False (Inr []) (Inr ParseResult0) (Some demo_previous))"
    by (simp add: demo_world_def)
  have s: "snd (process_one (demo_world False (Inr []) (Inr ParseResult0) (Some demo_previous))
                 (demo_config ''boreal'') 0) = 0"
    by (simp add: demo_simps)
  show ?thesis
    using h1 h2 s headless_unavailable_is_stale_without_fallback [OF h1 h2, of 0]
    by (simp add: Operations0_def)
qed




section \<open>The fetch layer: retries and the cache\<close>

lemma calls_sleep [simp]: "calls (sleep d s) = calls s"
  by (simp add: sleep_def)

lemma calls_rate_limit [simp]: "calls (rate_limit L url s) = calls s"
  by (simp add: rate_limit_def Let_def sleep_def)





lemma calls_write_cache [simp]: "calls (write_cache p c s) = calls s"
  by (simp add: write_cache_def)










section \<open>The weather module: what fails and what degrades\<close>


lemma nws_except_fetch_error:
  "exn_cls e = FetchError \<Longrightarrow> nws_except e wx p f = Inr (wx, p, f)"
  by (simp add: nws_except_def)















section \<open>The inch parser of \<open>adapters/base.py\<close>\<close>

text \<open>The definitions that a concrete search unfolds.\<close>

lemmas base_simps = ustr_def py_isspace_def py_isdigit_def py_isupper_def py_islower_def
  py_isword_def lower_cp_def upper_cp_def lower_def strip_def in_cset_def step1_def group_def
  lastindex_def match_at_def re_search_def match_end_def Plus_def LazyPlus_def Opt_def lit_def
  digits_def ws0_def ws1_def decimal_def dec_val_def float_dec_def py_bind_def group_float_def
  group_int_def py_int_def int_pair_def Let_def

lemmas inches_simps = parse_inches_def inches_range_re_def inches_single_re_def

lemma parse_inches_simple:
  "parse_inches (Some (ustr ''6'' @ [34])) = Inr (Some 6) \<and>
   parse_inches (Some (ustr ''6 in'')) = Inr (Some 6) \<and>
   parse_inches (Some (ustr ''6 inches'')) = Inr (Some 6) \<and>
   parse_inches (Some (ustr ''12.5 inches'')) = Inr (Some (25 / 2))"
  by (simp add: base_simps inches_simps)

lemma parse_inches_invalid:
  "parse_inches (Some []) = Inr None \<and> parse_inches (Some (ustr ''none'')) = Inr None \<and>
   parse_inches None = Inr None"
  by (simp add: base_simps inches_simps)

text \<open>
  Claim C7. \<open>parse_inches\<close> takes the mean of two numbers joined by a hyphen: \<open>"10-15"\<close>
  gives 12.5. Joined by an en dash (U+2013, code point 8211), as in \<open>10\u201315\<close>, the two
  numbers are not seen as a range: the character class of the range pattern holds the hyphen
  and the three characters U+00E2, U+20AC and U+201C (the bytes of an en dash read in another
  encoding), not the en dash. The single-value pattern then returns the first number, 10.
  The same happens for the string of the repository's test, where these three characters
  stand between the numbers: the class matches one of them, and a digit must follow.
\<close>

theorem parse_inches_en_dash_gives_first_number:
  "parse_inches (Some (ustr ''10-15'')) = Inr (Some (25 / 2)) \<and>
   parse_inches (Some (ustr ''10'' @ [8211] @ ustr ''15'')) = Inr (Some 10) \<and>
   parse_inches (Some (ustr ''10'' @ [226, 8364, 8220] @ ustr ''15'')) = Inr (Some 10)"
  by (simp add: base_simps inches_simps)

section \<open>Every adapter returns a result\<close>

lemma returns_bind: "(\<And>x. m = Inr x \<Longrightarrow> returns P (f x)) \<Longrightarrow> returns P (py_bind m f)"
  by (cases m) (simp_all add: returns_def py_bind_def)

lemma returns_Inr: "P r \<Longrightarrow> returns P (Inr r)"
  by (simp add: returns_def)

lemma returns_if: "returns P a \<Longrightarrow> returns P b \<Longrightarrow> returns P (if c then a else b)"
  by simp

lemmas body_intros = returns_bind returns_if returns_Inr

text \<open>The handler \<open>except Exception\<close> catches every exception of the model.\<close>

lemma parse_guard_returns:
  "parse_guard body =
     (case body of Inr r \<Rightarrow> Inr r | Inl e \<Rightarrow> Inr (ParseResult0\<lparr>error := Some (str_exn e)\<rparr>))"
  by (simp add: parse_guard_def split: sum.splits)

lemma guard_error_iff_failed:
  "returns error_iff_failed body \<Longrightarrow> \<exists>r. parse_guard body = Inr r \<and> error_iff_failed r"
  by (cases body) (simp_all add: parse_guard_returns returns_def error_iff_failed_def ParseResult0_def)

lemma adapter_parse_guard:
  "a \<noteq> PlaceholderHeadlessAdapter \<Longrightarrow> adapter_parse L a html = parse_guard (adapter_body L a html)"
  by (cases a)
     (simp_all add: generic_parse_def boreal_parse_def diamond_parse_def homewood_parse_def
        mt_rose_parse_def palisades_parse_def sierra_parse_def sugar_bowl_parse_def
        donner_parse_def vail_parse_def)

text \<open>The last statements of each body set \<open>success\<close> to true and leave \<open>error\<close> unset, or
  leave \<open>success\<close> false and set \<open>error\<close>.\<close>

lemma generic_body_ok: "returns error_iff_failed (generic_body L html)"
  unfolding generic_body_def Let_def
  by (intro body_intros) (simp_all add: error_iff_failed_def ParseResult0_def)

lemma mt_rose_body_ok: "returns error_iff_failed (mt_rose_body L html)"
  unfolding mt_rose_body_def Let_def
  by (intro body_intros) (simp_all add: error_iff_failed_def ParseResult0_def)

lemma vail_body_ok: "returns error_iff_failed (vail_body L html)"
  unfolding vail_body_def Let_def
  by (intro body_intros) (simp_all add: error_iff_failed_def ParseResult0_def)

lemma diamond_body_ok: "returns error_iff_failed (diamond_body L html)"
  unfolding diamond_body_def Let_def
  by (intro body_intros) (simp_all add: error_iff_failed_def ParseResult0_def)

lemma palisades_body_ok: "returns error_iff_failed (palisades_body L html)"
  unfolding palisades_body_def Let_def
  by (intro body_intros) (simp_all add: error_iff_failed_def ParseResult0_def)

lemma boreal_body_ok: "returns error_iff_failed (boreal_body L html)"
  unfolding boreal_body_def Let_def
  by (intro body_intros)
     (simp_all add: error_iff_failed_def ParseResult0_def finish_rendered_def Let_def)

lemma homewood_body_ok: "returns error_iff_failed (homewood_body L html)"
  unfolding homewood_body_def Let_def
  by (intro body_intros) (simp_all add: error_iff_failed_def ParseResult0_def)

lemma sierra_body_ok: "returns error_iff_failed (sierra_body L html)"
  unfolding sierra_body_def Let_def
  by (intro body_intros) (simp_all add: error_iff_failed_def ParseResult0_def)

lemma sugar_bowl_body_ok: "returns error_iff_failed (sugar_bowl_body L html)"
  unfolding sugar_bowl_body_def Let_def
  by (intro body_intros) (simp_all add: error_iff_failed_def ParseResult0_def)

lemma donner_body_ok: "returns error_iff_failed (donner_body L html)"
  unfolding donner_body_def Let_def
  by (intro body_intros)
     (simp_all add: error_iff_failed_def ParseResult0_def finish_rendered_def Let_def)

lemma adapter_body_ok: "returns error_iff_failed (adapter_body L a html)"
  by (cases a)
     (simp_all add: generic_body_ok boreal_body_ok diamond_body_ok homewood_body_ok
        mt_rose_body_ok palisades_body_ok sierra_body_ok sugar_bowl_body_ok donner_body_ok
        vail_body_ok,
      simp add: placeholder_parse_def returns_def error_iff_failed_def ParseResult0_def)

text \<open>The definitions that a concrete parse unfolds.\<close>

lemmas bs4_simps = get_text_def get_text_strip_def find_all_class_def find_all_class_re_def
  find_all_names_def find_class_def colon_ws_def inch_mark_def dquote_def plural_def float1_def
  counts2_def is_not_None_def page_def page_lib_def clean_text_def split_ws_def
  ParseResult0_def Operations0_def Snow0_def py_gt0_def py_add_def py_or0_def type_error_def

lemmas generic_simps = slash_pair_def trails_or_runs_def inch_word_def hr_or_hour_def
  generic_lift_res_def generic_find_lift_counts_def generic_trail_res_def
  generic_find_trail_counts_def generic_find_open_status_def generic_new_snow_res_def
  generic_find_new_snow_def generic_base_res_def generic_find_base_depth_def
  generic_season_res_def generic_find_season_total_def surface_tail_def
  generic_find_surface_def with_lifts_def with_trails_def generic_body_def generic_parse_def
  parse_guard_def

lemmas mt_rose_simps = collapse_ws_def LIFT_NAMES_def words_re_def lift_status_re_def
  mt_rose_count_lifts_def mt_rose_count_trails_def range_tail_def mt_rose_parse_range_def
  set_and_gt0_def mt_rose_body_def mt_rose_parse_def slash_pair_def trails_or_runs_def
  parse_guard_def

lemmas vail_simps = py_in_def py_getitem_def py_iter_def fr_json_re_def trailing_comma_re_def
  vail_extract_json_def counts0_def count_status_def vail_count_lift_statuses_def
  vail_count_trail_statuses_def keyed_def vail_lifts_def vail_trails_def vail_open_flag_def
  vail_body_def vail_parse_def collapse_ws_def py_get_def parse_guard_def

text \<open>
  Claim C1. For every kind, registered or not, the adapter that \<open>get_adapter\<close> returns for it,
  and for every markup and every behaviour of the HTML and JSON parsers, \<open>parse\<close> returns a
  \<open>ParseResult\<close> and raises nothing. Whenever a statement inside the \<open>try\<close> of the adapter
  raises an exception \<open>e\<close>, the result is the fresh \<open>ParseResult()\<close> with \<open>error = str(e)\<close>:
  its \<open>success\<close> is false.
\<close>

theorem adapter_parse_never_raises:
  "(\<exists>r. adapter_parse L (get_adapter k) html = Inr r) \<and>
   (\<forall>e. adapter_body L (get_adapter k) html = Inl e \<longrightarrow>
        adapter_parse L (get_adapter k) html = Inr (ParseResult0\<lparr>error := Some (str_exn e)\<rparr>) \<and>
        \<not> success (ParseResult0\<lparr>error := Some (str_exn e)\<rparr>))"
proof (cases "get_adapter k = PlaceholderHeadlessAdapter")
  case True
  then show ?thesis by (simp add: placeholder_parse_def ParseResult0_def)
next
  case False
  show ?thesis
    by (cases "adapter_body L (get_adapter k) html")
       (simp_all add: adapter_parse_guard [OF False] parse_guard_returns ParseResult0_def)
qed

text \<open>A Vail page whose terrain feed has a number for its lifts: the loop over the lifts
  raises \<open>TypeError\<close>, and \<open>parse\<close> returns the failed result with that message.\<close>

theorem adapter_parse_never_raises_witness:
  "adapter_body terrain_lib (get_adapter (ustr ''vail_resorts'')) terrain_html
     = Inl (Exn TypeError (ustr ''object is not iterable'')) \<and>
   adapter_parse terrain_lib (get_adapter (ustr ''vail_resorts'')) terrain_html
     = Inr (ParseResult0\<lparr>error := Some (ustr ''object is not iterable'')\<rparr>)"
proof -
  have g: "get_adapter (ustr ''vail_resorts'') = VailResortsAdapter"
    by (simp add: get_adapter_def ADAPTER_REGISTRY_def ustr_def)
  have b: "vail_body terrain_lib terrain_html = Inl (Exn TypeError (ustr ''object is not iterable''))"
    by (simp add: base_simps bs4_simps vail_simps terrain_html_def terrain_lib_def)
  from b g adapter_parse_never_raises [of terrain_lib "ustr ''vail_resorts''" terrain_html]
  show ?thesis by simp
qed

text \<open>
  Claim C9. For every adapter, every markup and every behaviour of the HTML and JSON parsers,
  \<open>parse\<close> returns a result whose \<open>error\<close> is set if and only if its \<open>success\<close> is false.
\<close>

theorem adapter_error_iff_not_success:
  "\<exists>r. adapter_parse L a html = Inr r \<and> ((error r \<noteq> None) = (\<not> success r))"
proof (cases "a = PlaceholderHeadlessAdapter")
  case True
  then show ?thesis by (simp add: placeholder_parse_def ParseResult0_def)
next
  case False
  from guard_error_iff_failed [OF adapter_body_ok [of L a html]]
       adapter_parse_guard [OF False, of L html]
  show ?thesis by (simp add: error_iff_failed_def)
qed

text \<open>A page with a trail count only: the generic adapter keeps the count and reports the
  failure.\<close>

theorem adapter_error_iff_not_success_witness:
  "adapter_parse (page_lib (page [ustr ''20/50 Trails'']) PNone) GenericHTMLAdapter [] =
     Inr (ParseResult0\<lparr>pr_ops := Operations0\<lparr>trails_open := PInt 20, trails_total := PInt 50\<rparr>,
            error := Some (ustr ''Could not extract meaningful data'')\<rparr>)"
  using adapter_error_iff_not_success
          [of "page_lib (page [ustr ''20/50 Trails'']) PNone" GenericHTMLAdapter "[]"]
  by (simp add: base_simps bs4_simps generic_simps)

section \<open>The open flag of every adapter\<close>

lemma py_gt0_positive: "py_gt0 v = Inr b \<Longrightarrow> b = positive v"
  by (auto simp: py_gt0_def positive_def split: option.splits sum.splits)

lemma flag_from_counts_claimed:
  "flag_from_counts o1 = Inr flag \<Longrightarrow> flag = claimed_open_flag None (lifts_open o1) (trails_open o1)"
  by (auto simp: flag_from_counts_def claimed_open_flag_def is_not_None_def py_bind_def
           dest: py_gt0_positive split: if_splits sum.splits)

lemma generic_flag:
  assumes "soup_of L html = Inr soup"
  shows "returns (\<lambda>r. open_flag (pr_ops r) =
            claimed_open_flag (generic_phrase (generic_text soup)) (lifts_open (pr_ops r)) PNone)
          (generic_body L html)"
  using assms unfolding generic_body_def Let_def
  by (intro body_intros)
     (auto simp: ParseResult0_def generic_find_open_status_def claimed_open_flag_def
        generic_phrase_def generic_text_def is_not_None_def py_bind_def
        dest: py_gt0_positive split: if_splits sum.splits)

lemma palisades_flag:
  "returns (\<lambda>r. open_flag (pr_ops r) =
            claimed_open_flag None (lifts_open (pr_ops r)) (trails_open (pr_ops r)))
          (palisades_body L html)"
  unfolding palisades_body_def Let_def
  by (intro body_intros)
     (auto simp: ParseResult0_def dest: flag_from_counts_claimed)

lemma homewood_flag:
  "returns (\<lambda>r. open_flag (pr_ops r) =
            claimed_open_flag None (lifts_open (pr_ops r)) (trails_open (pr_ops r)))
          (homewood_body L html)"
  unfolding homewood_body_def Let_def
  by (intro body_intros)
     (auto simp: ParseResult0_def dest: flag_from_counts_claimed)

lemma boreal_flag:
  assumes "soup_of L html = Inr soup"
  shows "returns (\<lambda>r. open_flag (pr_ops r) =
            claimed_open_flag (boreal_phrase (flat_text soup)) (lifts_open (pr_ops r)) (trails_open (pr_ops r)))
          (boreal_body L html)"
  using assms unfolding boreal_body_def Let_def
  by (intro body_intros)
     (auto simp: ParseResult0_def finish_rendered_def Let_def boreal_phrase_def flat_text_def
        claimed_open_flag_def dest: flag_from_counts_claimed split: if_splits)

lemma donner_flag:
  assumes "soup_of L html = Inr soup"
  shows "returns (\<lambda>r. open_flag (pr_ops r) =
            claimed_open_flag (donner_phrase (flat_text soup)) (lifts_open (pr_ops r)) (trails_open (pr_ops r)))
          (donner_body L html)"
  using assms unfolding donner_body_def Let_def
  by (intro body_intros)
     (auto simp: ParseResult0_def finish_rendered_def Let_def donner_phrase_def flat_text_def
        claimed_open_flag_def dest: flag_from_counts_claimed split: if_splits)

lemma diamond_flag:
  assumes "soup_of L html = Inr soup"
  shows "returns (\<lambda>r. open_flag (pr_ops r) =
            (if lifts_open (pr_ops r) \<noteq> PNone then Some (positive (lifts_open (pr_ops r)))
             else diamond_phrase (lower (get_text (ustr '' '') soup))))
          (diamond_body L html)"
  using assms unfolding diamond_body_def Let_def
  by (intro body_intros)
     (auto simp: ParseResult0_def diamond_phrase_def is_not_None_def py_bind_def
        dest: py_gt0_positive split: if_splits sum.splits)

lemma mt_rose_flag:
  "returns (\<lambda>r. open_flag (pr_ops r) =
            Some (lifts_open (pr_ops r) \<noteq> PNone \<and> positive (lifts_open (pr_ops r))))
          (mt_rose_body L html)"
  unfolding mt_rose_body_def Let_def
  by (intro body_intros)
     (auto simp: ParseResult0_def set_and_gt0_def is_not_None_def
        dest: py_gt0_positive split: if_splits)

lemma sierra_flag:
  "returns (\<lambda>r. open_flag (pr_ops r) =
            Some (lifts_open (pr_ops r) \<noteq> PNone \<and> positive (lifts_open (pr_ops r))))
          (sierra_body L html)"
  unfolding sierra_body_def Let_def
  by (intro body_intros)
     (auto simp: ParseResult0_def set_and_gt0_def is_not_None_def
        dest: py_gt0_positive split: if_splits)


lemma vail_open_flag_rule:
  "vail_open_flag o1 = Inr flag \<Longrightarrow> flag = open_flag_rule VailResortsAdapter soup o1"
  by (auto simp: vail_open_flag_def available_def py_bind_def is_not_None_def
           dest: py_gt0_positive split: sum.splits if_splits)

lemma sugar_bowl_open_flag_rule:
  "sugar_bowl_open_flag text o1 = Inr flag \<Longrightarrow>
   flag = (if contains (lower text) (ustr ''mountain status open'') \<or>
              positive (available (lifts_open o1) (lifts_scheduled o1)) then Some True
           else if lifts_open o1 \<noteq> PNone \<or> lifts_scheduled o1 \<noteq> PNone then Some False
           else None)"
  by (auto simp: sugar_bowl_open_flag_def available_def py_bind_def is_not_None_def
           dest: py_gt0_positive split: sum.splits if_splits)

lemma vail_flag:
  "returns (\<lambda>r. open_flag (pr_ops r) = open_flag_rule VailResortsAdapter soup (pr_ops r))
          (vail_body L html)"
  unfolding vail_body_def Let_def
  by (intro body_intros)
     (auto simp: ParseResult0_def available_def dest: vail_open_flag_rule [where soup = soup])

lemma sugar_bowl_flag:
  assumes "soup_of L html = Inr soup"
  shows "returns (\<lambda>r. open_flag (pr_ops r) = open_flag_rule SugarBowlAdapter soup (pr_ops r))
          (sugar_bowl_body L html)"
  using assms unfolding sugar_bowl_body_def Let_def
  by (intro body_intros)
     (auto simp: ParseResult0_def flat_text_def dest!: sugar_bowl_open_flag_rule)

lemma returnsD: "returns P m \<Longrightarrow> m = Inr r \<Longrightarrow> P r"
  by (simp add: returns_def)


text \<open>
  Claim C5, as the code has it. When the statements of an adapter's \<open>parse\<close> run to their end
  on a page whose tree is \<open>soup\<close>, the result \<open>r\<close> is what \<open>parse\<close> returns, and its open flag
  is \<open>open_flag_rule\<close> of the adapter, the tree and the counts of \<open>r\<close>. The generic adapter
  follows the order of the specification without its step on the trail count; Boreal and
  Tahoe Donner follow it with closed phrases only; Palisades and Homewood look for no phrase;
  Diamond Peak puts the lift count before the phrases and has no step on the trail count;
  Mt Rose and Sierra at Tahoe never leave the flag unknown; Vail and Sugar Bowl add the
  scheduled counts to the open counts.
\<close>

theorem open_flag_rule_of_each_adapter:
  assumes "soup_of L html = Inr soup" and "adapter_body L a html = Inr r"
  shows "adapter_parse L a html = Inr r \<and> open_flag (pr_ops r) = open_flag_rule a soup (pr_ops r)"
proof -
  have p: "adapter_parse L a html = Inr r"
    using assms(2)
    by (cases "a = PlaceholderHeadlessAdapter")
       (simp_all add: adapter_parse_guard parse_guard_returns)
  have "open_flag (pr_ops r) = open_flag_rule a soup (pr_ops r)"
  proof (cases a)
    case GenericHTMLAdapter
    with assms(2) returnsD [OF generic_flag [OF assms(1)]] show ?thesis by simp
  next
    case BorealAdapter
    with assms(2) returnsD [OF boreal_flag [OF assms(1)]] show ?thesis by simp
  next
    case DiamondPeakAdapter
    with assms(2) returnsD [OF diamond_flag [OF assms(1)]] show ?thesis by simp
  next
    case HomewoodAdapter
    with assms(2) returnsD [OF homewood_flag] show ?thesis by simp
  next
    case MtRoseAdapter
    with assms(2) returnsD [OF mt_rose_flag] show ?thesis by simp
  next
    case PalisadesAdapter
    with assms(2) returnsD [OF palisades_flag] show ?thesis by simp
  next
    case SierraAtTahoeAdapter
    with assms(2) returnsD [OF sierra_flag] show ?thesis by simp
  next
    case SugarBowlAdapter
    with assms(2) returnsD [OF sugar_bowl_flag [OF assms(1)]] show ?thesis by simp
  next
    case TahoeDonnerAdapter
    with assms(2) returnsD [OF donner_flag [OF assms(1)]] show ?thesis by simp
  next
    case VailResortsAdapter
    with assms(2) returnsD [OF vail_flag [of soup L html]] show ?thesis by simp
  next
    case PlaceholderHeadlessAdapter
    with assms(2) show ?thesis
      by (auto simp: placeholder_parse_def ParseResult0_def Operations0_def)
  qed
  with p show ?thesis by simp
qed


text \<open>The definitions that the concrete pages unfold.\<close>

lemmas flag_simps = positive_def claimed_open_flag_def generic_phrase_def generic_text_def
  closed_page_def trails_page_def


text \<open>A page that says \<open>Mountain Closed\<close> and \<open>5/10 Lifts Open\<close>: for the generic adapter
  the phrase decides, and the flag is false.\<close>

theorem open_flag_rule_of_each_adapter_witness:
  "\<exists>r. adapter_parse (page_lib closed_page PNone) GenericHTMLAdapter [] = Inr r \<and>
       lifts_open (pr_ops r) = PInt 5 \<and> open_flag (pr_ops r) = Some False \<and>
       open_flag_rule GenericHTMLAdapter closed_page (pr_ops r) = Some False"
proof -
  obtain r where b: "adapter_body (page_lib closed_page PNone) GenericHTMLAdapter [] = Inr r"
    and l: "lifts_open (pr_ops r) = PInt 5" and f: "open_flag (pr_ops r) = Some False"
    by (simp add: base_simps bs4_simps generic_simps flag_simps)
  have s: "soup_of (page_lib closed_page PNone) [] = Inr closed_page"
    by (simp add: page_lib_def)
  from open_flag_rule_of_each_adapter [OF s b] l f show ?thesis by simp
qed


text \<open>
  Claim C5 as it is written fails on the generic adapter: a page with \<open>20/50 Trails\<close> and
  six inches of new snow, no lift count and no phrase. The parse succeeds with 20 open
  trails, and the flag is unknown, where the order of the specification infers \<open>True\<close> from
  the trail count.
\<close>

theorem generic_ignores_trail_count_counterexample:
  "\<exists>r. adapter_parse (page_lib trails_page PNone) GenericHTMLAdapter [] = Inr r \<and> success r \<and>
       generic_phrase (generic_text trails_page) = None \<and>
       lifts_open (pr_ops r) = PNone \<and> trails_open (pr_ops r) = PInt 20 \<and>
       open_flag (pr_ops r) = None \<and>
       claimed_open_flag (generic_phrase (generic_text trails_page))
         (lifts_open (pr_ops r)) (trails_open (pr_ops r)) = Some True"
  by (simp add: base_simps bs4_simps generic_simps flag_simps)


end
